theory Spec2Isabelle
  imports
    Complex_Main
    "HOL-Library.Char_ord"
    "HOL-Library.List_Lexorder"
    "HOL-Library.Product_Lexorder"
    "HOL-Library.Multiset"
    "HOL-Library.Log_Nat"
begin

section \<open>Data model of the sales ETL (main.py)\<close>

text \<open>
  The program is a sequence of stages over a pandas DataFrame. A DataFrame is modelled
  as the list of its rows in order, every row paired with its index label: the label is
  what \<^verbatim>\<open>df.drop(rechazados.index)\<close> looks at, so it is part of the model.
  The columns are the six of the sales extract; \<^verbatim>\<open>crear_monto_total\<close>
  adds a seventh.

  \<^item> \<^verbatim>\<open>fecha\<close> is a \<^verbatim>\<open>datetime64[ns]\<close> column after
    \<^verbatim>\<open>pd.to_datetime\<close>: a timestamp in nanoseconds since the epoch, or NaT
    (\<open>None\<close>).
  \<^item> \<^verbatim>\<open>cantidad\<close>, \<^verbatim>\<open>precio_unitario\<close> and
    \<^verbatim>\<open>monto_total\<close> are numeric columns: a number or NaN (\<open>None\<close>). The
    type \<open>'n\<close> of the numbers is a parameter of the row type. The stages up to the
    validator only compare a number with 0 and ask whether it is missing; they are stated
    for every ordered type with a zero. The rankings are stated for the rationals, with
    exact sums: what is proved of them is the order and the length of the result. The
    daily summary is stated for the values of float64 (\<open>f64\<close> below), with the
    rounding, the overflow and the infinities of IEEE 754 arithmetic.
  \<^item> \<^verbatim>\<open>producto\<close>, \<^verbatim>\<open>vendedor\<close> and \<^verbatim>\<open>sucursal\<close>
    are text columns: a string or NaN (\<open>None\<close>).

  Logging writes to a sink that no stage reads; it is left out.
\<close>

type_synonym timestamp = int
type_synonym date = int
type_synonym 'r frame = "(nat \<times> 'r) list"

record 'n venta =
  fecha :: "timestamp option"
  producto :: "string option"
  vendedor :: "string option"
  sucursal :: "string option"
  cantidad :: "'n option"
  precio_unitario :: "'n option"

datatype pd_error = KeyError | ValueError

definition index :: "'r frame \<Rightarrow> nat list" where
  "index df = map fst df"

definition filas :: "'r frame \<Rightarrow> 'r list" where
  "filas df = map snd df"

subsection \<open>Timestamps and calendar dates\<close>

definition ns_per_day :: int where
  "ns_per_day = 86400000000000"

text \<open>\<^verbatim>\<open>pd.to_datetime(d)\<close> of a calendar date: the timestamp of its midnight.\<close>

definition to_datetime_date :: "date \<Rightarrow> timestamp" where
  "to_datetime_date d = d * ns_per_day"

text \<open>\<^verbatim>\<open>.dt.date\<close>: the calendar date of a timestamp.\<close>

definition dt_date :: "timestamp \<Rightarrow> date" where
  "dt_date t = t div ns_per_day"

subsection \<open>Comparisons with missing values\<close>

text \<open>
  A comparison of NaN or NaT with anything is False in pandas; \<^verbatim>\<open>isna\<close> is the
  test for a missing value.
\<close>

definition isna :: "'a option \<Rightarrow> bool" where
  "isna v = (v = None)"

definition gt_na :: "'a::ord option \<Rightarrow> 'a \<Rightarrow> bool" where
  "gt_na v c = (case v of None \<Rightarrow> False | Some x \<Rightarrow> c < x)"

definition le_na :: "'a::ord option \<Rightarrow> 'a \<Rightarrow> bool" where
  "le_na v c = (case v of None \<Rightarrow> False | Some x \<Rightarrow> x \<le> c)"

section \<open>The rule validator: validar_reglas_negocio\<close>

text \<open>
  \<^verbatim>\<open>
  hoy = pd.to_datetime(datetime.today().date())
  mask_futuras = df["fecha"] > hoy
  mask_precio_invalido = (df["precio_unitario"] <= 0) | (df["precio_unitario"].isna())
  mask_cantidad_invalida = (df["cantidad"] <= 0) | (df["cantidad"].isna())
  mask_fecha_invalida = df["fecha"].isna()
  rechazados = df[mask_futuras | mask_precio_invalido | mask_cantidad_invalida
                  | mask_fecha_invalida].copy()
  df_valido = df.drop(rechazados.index)
  if not rechazados.empty:
      os.makedirs(os.path.dirname(ruta_rechazos), exist_ok=True)
      modo = "a" if os.path.exists(ruta_rechazos) else "w"
      encabezado = not os.path.exists(ruta_rechazos)
      rechazados.to_csv(ruta_rechazos, index=False, mode=modo, header=encabezado)
  return df_valido
  \<close>
  The run date \<^verbatim>\<open>datetime.today().date()\<close> is the parameter \<open>today\<close>. The four
  masks are boolean columns; here each is the predicate that gives the mask's value at a
  row.
\<close>

definition mask_futuras :: "timestamp \<Rightarrow> 'n venta \<Rightarrow> bool" where
  "mask_futuras hoy r = gt_na (fecha r) hoy"

definition mask_precio_invalido :: "'n::{ord,zero} venta \<Rightarrow> bool" where
  "mask_precio_invalido r = (le_na (precio_unitario r) 0 \<or> isna (precio_unitario r))"

definition mask_cantidad_invalida :: "'n::{ord,zero} venta \<Rightarrow> bool" where
  "mask_cantidad_invalida r = (le_na (cantidad r) 0 \<or> isna (cantidad r))"

definition mask_fecha_invalida :: "'n venta \<Rightarrow> bool" where
  "mask_fecha_invalida r = isna (fecha r)"

definition mask_rechazo :: "date \<Rightarrow> 'n::{ord,zero} venta \<Rightarrow> bool" where
  "mask_rechazo today r =
     (mask_futuras (to_datetime_date today) r \<or> mask_precio_invalido r
      \<or> mask_cantidad_invalida r \<or> mask_fecha_invalida r)"

text \<open>\<^verbatim>\<open>df[mask]\<close>: the rows where the mask is True, with their labels.\<close>

definition rechazados :: "date \<Rightarrow> 'n::{ord,zero} venta frame \<Rightarrow> 'n venta frame" where
  "rechazados today df = filter (\<lambda>(i, r). mask_rechazo today r) df"

text \<open>
  \<^verbatim>\<open>df.drop(labels)\<close> removes every row whose index label is among the labels,
  and raises KeyError when a label is not in the index.
\<close>

definition drop_rows :: "nat list \<Rightarrow> 'r frame \<Rightarrow> pd_error + 'r frame" where
  "drop_rows labels df =
     (if set labels \<subseteq> set (index df)
      then Inr (filter (\<lambda>(i, r). i \<notin> set labels) df)
      else Inl KeyError)"

text \<open>
  The file system, as far as the validator touches it: whether the directory of the
  rejects sink exists, and the sink itself, a CSV file that is absent (\<open>None\<close>) or a
  list of lines, each the header or a data row.
\<close>

datatype 'n linea = Encabezado | Fila "'n venta"

record 'n sistema =
  directorio :: bool
  rechazados_csv :: "'n linea list option"

text \<open>\<^verbatim>\<open>os.makedirs(os.path.dirname(ruta_rechazos), exist_ok=True)\<close>\<close>

definition makedirs :: "'n sistema \<Rightarrow> 'n sistema" where
  "makedirs s = s\<lparr>directorio := True\<rparr>"

text \<open>\<^verbatim>\<open>os.path.exists(ruta_rechazos)\<close>\<close>

definition path_exists :: "'n sistema \<Rightarrow> bool" where
  "path_exists s = (rechazados_csv s \<noteq> None)"

text \<open>
  \<^verbatim>\<open>to_csv(ruta_rechazos, index=False, mode, header)\<close> writes the optional header
  and the rows, without their labels: in mode "w" they replace the file, in mode "a" they
  follow the lines it has.
\<close>

datatype modo = ModoW | ModoA

definition to_csv :: "'n venta list \<Rightarrow> modo \<Rightarrow> bool \<Rightarrow> 'n sistema \<Rightarrow> 'n sistema" where
  "to_csv rows m header s =
     (let nuevo = (if header then [Encabezado] else []) @ map Fila rows
      in case m of
           ModoW \<Rightarrow> s\<lparr>rechazados_csv := Some nuevo\<rparr>
         | ModoA \<Rightarrow> s\<lparr>rechazados_csv :=
                        Some ((case rechazados_csv s of None \<Rightarrow> [] | Some viejo \<Rightarrow> viejo)
                              @ nuevo)\<rparr>)"

definition validar_reglas_negocio ::
  "date \<Rightarrow> 'n::{ord,zero} venta frame \<Rightarrow> 'n sistema
   \<Rightarrow> pd_error + ('n venta frame \<times> 'n sistema)" where
  "validar_reglas_negocio today df s =
     (let rech = rechazados today df
      in case drop_rows (index rech) df of
           Inl e \<Rightarrow> Inl e
         | Inr df_valido \<Rightarrow>
             Inr (df_valido,
                  if rech \<noteq> []
                  then (let s1 = makedirs s;
                            m = (if path_exists s1 then ModoA else ModoW);
                            encabezado = (\<not> path_exists s1)
                        in to_csv (filas rech) m encabezado s1)
                  else s))"

section \<open>Ingestion and type coercion: tipificar_campos\<close>

text \<open>
  \<^verbatim>\<open>leer_archivos_csv\<close> returns \<^verbatim>\<open>pd.concat(dataframe, ignore_index=True)\<close>:
  the rows of all files in order, relabelled 0, 1, 2, ...
\<close>

definition concat_ignore_index :: "'r list list \<Rightarrow> 'r frame" where
  "concat_ignore_index dfs = (let rows = concat dfs in zip [0..<length rows] rows)"

text \<open>
  Before coercion a cell of \<^verbatim>\<open>fecha\<close>, \<^verbatim>\<open>cantidad\<close> or
  \<^verbatim>\<open>precio_unitario\<close> is what \<^verbatim>\<open>read_csv\<close> left there: a text, a
  number or NaN.
\<close>

datatype celda = Texto string | Numero rat | Nulo

record venta_cruda =
  fecha_c :: celda
  producto_c :: "string option"
  vendedor_c :: "string option"
  sucursal_c :: "string option"
  cantidad_c :: celda
  precio_unitario_c :: celda

text \<open>
  A frame has the columns that its list of column names gives. The row record holds a
  cell for each of the six columns of the extract; the cells of a column that the frame
  does not have are never read. \<^verbatim>\<open>df[c]\<close> is the column named c, and raises
  KeyError when the frame has no column of that name.
\<close>

definition columna :: "string list \<Rightarrow> string \<Rightarrow> ('r \<Rightarrow> 'c) \<Rightarrow> 'r frame \<Rightarrow> pd_error + 'c list" where
  "columna cols c sel df = (if c \<in> set cols then Inr (map sel (filas df)) else Inl KeyError)"

text \<open>
  \<^verbatim>\<open>pd.to_datetime\<close> and \<^verbatim>\<open>pd.to_numeric\<close> are library functions. Their
  parser of one value is a parameter here (\<open>None\<close>: the value does not parse); what is
  modelled is their \<^verbatim>\<open>errors\<close> argument: with "raise" a value that does not parse
  raises ValueError for the whole column, with "coerce" it becomes NaT or NaN. A missing
  value stays missing.
\<close>

datatype errors = Raise | Coerce

definition convertir :: "(celda \<Rightarrow> 'a option) \<Rightarrow> errors \<Rightarrow> celda \<Rightarrow> pd_error + 'a option" where
  "convertir parse e c =
     (case c of
        Nulo \<Rightarrow> Inr None
      | _ \<Rightarrow> (case parse c of
                Some v \<Rightarrow> Inr (Some v)
              | None \<Rightarrow> (case e of Coerce \<Rightarrow> Inr None | Raise \<Rightarrow> Inl ValueError)))"

fun convertir_columna ::
  "(celda \<Rightarrow> 'a option) \<Rightarrow> errors \<Rightarrow> celda list \<Rightarrow> pd_error + 'a option list" where
  "convertir_columna parse e [] = Inr []"
| "convertir_columna parse e (c # cs) =
     (case convertir parse e c of
        Inl err \<Rightarrow> Inl err
      | Inr v \<Rightarrow> (case convertir_columna parse e cs of
                    Inl err \<Rightarrow> Inl err
                  | Inr vs \<Rightarrow> Inr (v # vs)))"

definition to_datetime ::
  "(celda \<Rightarrow> timestamp option) \<Rightarrow> errors \<Rightarrow> celda list \<Rightarrow> pd_error + timestamp option list" where
  "to_datetime parse e col = convertir_columna parse e col"

definition to_numeric ::
  "(celda \<Rightarrow> 'n option) \<Rightarrow> errors \<Rightarrow> celda list \<Rightarrow> pd_error + 'n option list" where
  "to_numeric parse e col = convertir_columna parse e col"

text \<open>
  \<^verbatim>\<open>
  df["fecha"] = pd.to_datetime(df["fecha"], errors="coerce")
  df["cantidad"] = pd.to_numeric(df["cantidad"], errors="coerce")
  df["precio_unitario"] = pd.to_numeric(df["precio_unitario"], errors="coerce")
  return df
  \<close>
  The three columns are read without a test that the frame has them.
\<close>

definition tipificar_campos ::
  "string list \<Rightarrow> (celda \<Rightarrow> timestamp option) \<Rightarrow> (celda \<Rightarrow> 'n option) \<Rightarrow> venta_cruda frame
   \<Rightarrow> pd_error + 'n venta frame" where
  "tipificar_campos cols parse_fecha parse_num df =
     (case columna cols ''fecha'' fecha_c df of
        Inl e \<Rightarrow> Inl e
      | Inr c1 \<Rightarrow>
     (case to_datetime parse_fecha Coerce c1 of
        Inl e \<Rightarrow> Inl e
      | Inr fs \<Rightarrow>
     (case columna cols ''cantidad'' cantidad_c df of
        Inl e \<Rightarrow> Inl e
      | Inr c2 \<Rightarrow>
     (case to_numeric parse_num Coerce c2 of
        Inl e \<Rightarrow> Inl e
      | Inr cs \<Rightarrow>
     (case columna cols ''precio_unitario'' precio_unitario_c df of
        Inl e \<Rightarrow> Inl e
      | Inr c3 \<Rightarrow>
     (case to_numeric parse_num Coerce c3 of
        Inl e \<Rightarrow> Inl e
      | Inr ps \<Rightarrow>
          Inr (map (\<lambda>((i, r), f, c, p).
                      (i, \<lparr>fecha = f, producto = producto_c r, vendedor = vendedor_c r,
                          sucursal = sucursal_c r, cantidad = c, precio_unitario = p\<rparr>))
                   (zip df (zip fs (zip cs ps))))))))))"

section \<open>The deduplicator: limpiar_duplicados_y_nulos\<close>

text \<open>
  \<^verbatim>\<open>
  df = df.drop_duplicates()
  criticos = ["fecha", "producto", "cantidad", "precio_unitario"]
  df = df.dropna(subset=criticos)
  return df
  \<close>
  \<^verbatim>\<open>drop_duplicates\<close> compares the rows' values in all columns (two missing
  values are equal, the index label is not compared) and keeps the first occurrence: the
  rows seen so far are the first argument of the loop. The two counts the source logs are
  not part of the result.
\<close>

fun drop_duplicates_desde :: "'r list \<Rightarrow> 'r frame \<Rightarrow> 'r frame" where
  "drop_duplicates_desde vistos [] = []"
| "drop_duplicates_desde vistos ((i, r) # df) =
     (if r \<in> set vistos then drop_duplicates_desde vistos df
      else (i, r) # drop_duplicates_desde (r # vistos) df)"

definition drop_duplicates :: "'r frame \<Rightarrow> 'r frame" where
  "drop_duplicates df = drop_duplicates_desde [] df"

definition nulo_critico :: "'n venta \<Rightarrow> bool" where
  "nulo_critico r =
     (isna (fecha r) \<or> isna (producto r) \<or> isna (cantidad r) \<or> isna (precio_unitario r))"

definition dropna_criticos :: "'n venta frame \<Rightarrow> 'n venta frame" where
  "dropna_criticos df = filter (\<lambda>(i, r). \<not> nulo_critico r) df"

definition limpiar_duplicados_y_nulos :: "'n venta frame \<Rightarrow> 'n venta frame" where
  "limpiar_duplicados_y_nulos df = dropna_criticos (drop_duplicates df)"

section \<open>The aggregator\<close>

subsection \<open>The values of float64\<close>

text \<open>
  A float64 that is not NaN is a finite number or one of the two infinities; NaN is the
  missing value \<open>None\<close> of a cell. A finite value is given by the rational number it
  stands for. The two zeros of IEEE 754 are not told apart: the program never divides by
  a float.
\<close>

datatype f64 = Fin rat | PInf | NInf

instantiation f64 :: "{zero, ord}"
begin

definition zero_f64 :: f64 where
  "zero_f64 = Fin 0"

fun less_eq_f64 :: "f64 \<Rightarrow> f64 \<Rightarrow> bool" where
  "less_eq_f64 (Fin a) (Fin b) = (a \<le> b)"
| "less_eq_f64 NInf y = True"
| "less_eq_f64 x PInf = True"
| "less_eq_f64 PInf y = False"
| "less_eq_f64 x NInf = False"

definition less_f64 :: "f64 \<Rightarrow> f64 \<Rightarrow> bool" where
  "less_f64 x y = (x \<le> y \<and> \<not> y \<le> x)"

instance ..

end

text \<open>
  The result of an arithmetic operation is the exact result rounded to the nearest value
  of binary64, a tie to the one with an even significand: 53 significant bits, exponents
  from -1022 to 1023, below that the subnormal values with the step \<open>pow2 (- 1074)\<close>, and
  an infinity when the rounded value does not fit.
\<close>

definition pow2 :: "int \<Rightarrow> rat" where
  "pow2 e = (if 0 \<le> e then 2 ^ nat e else 1 / 2 ^ nat (- e))"

text \<open>The exponent of a positive number a: the e with \<open>pow2 e \<le> a < pow2 (e + 1)\<close>.\<close>

definition log2_floor :: "rat \<Rightarrow> int" where
  "log2_floor a =
     (if 1 \<le> a then bitlen \<lfloor>a\<rfloor> - 1
      else (let k = bitlen \<lfloor>1 / a\<rfloor>
            in if a = pow2 (1 - k) then 1 - k else - k))"

text \<open>Rounding to the nearest integer, a tie to the even one.\<close>

definition rne :: "rat \<Rightarrow> int" where
  "rne y =
     (let f = \<lfloor>y\<rfloor>; d = y - of_int f
      in if d < 1 / 2 then f
         else if 1 / 2 < d then f + 1
         else if even f then f else f + 1)"

definition redondear :: "rat \<Rightarrow> f64" where
  "redondear x =
     (if x = 0 then Fin 0
      else (let a = \<bar>x\<bar>;
                e = max (log2_floor a) (- 1022);
                q = e - 52;
                m = rne (a / pow2 q);
                v = of_int m * pow2 q
            in if 1024 \<le> e \<or> (e = 1023 \<and> m = 9007199254740992)
               then (if 0 < x then PInf else NInf)
               else Fin (if 0 < x then v else - v)))"

text \<open>The sum and the product of two float64 cells.\<close>

fun fadd :: "f64 option \<Rightarrow> f64 option \<Rightarrow> f64 option" where
  "fadd (Some (Fin a)) (Some (Fin b)) = Some (redondear (a + b))"
| "fadd None y = None"
| "fadd x None = None"
| "fadd (Some PInf) (Some NInf) = None"
| "fadd (Some NInf) (Some PInf) = None"
| "fadd (Some PInf) y = Some PInf"
| "fadd x (Some PInf) = Some PInf"
| "fadd (Some NInf) y = Some NInf"
| "fadd x (Some NInf) = Some NInf"

definition signo_inf :: "bool \<Rightarrow> f64 option" where
  "signo_inf positivo = (if positivo then Some PInf else Some NInf)"

fun fmul :: "f64 option \<Rightarrow> f64 option \<Rightarrow> f64 option" where
  "fmul (Some (Fin a)) (Some (Fin b)) = Some (redondear (a * b))"
| "fmul None y = None"
| "fmul x None = None"
| "fmul (Some PInf) (Some (Fin b)) = (if b = 0 then None else signo_inf (0 < b))"
| "fmul (Some NInf) (Some (Fin b)) = (if b = 0 then None else signo_inf (b < 0))"
| "fmul (Some (Fin a)) (Some PInf) = (if a = 0 then None else signo_inf (0 < a))"
| "fmul (Some (Fin a)) (Some NInf) = (if a = 0 then None else signo_inf (a < 0))"
| "fmul (Some PInf) (Some PInf) = Some PInf"
| "fmul (Some NInf) (Some NInf) = Some PInf"
| "fmul (Some PInf) (Some NInf) = Some NInf"
| "fmul (Some NInf) (Some PInf) = Some NInf"

subsection \<open>crear_monto_total\<close>

record 'n venta_mt = "'n venta" +
  monto_total :: "'n option"

text \<open>The product of two exact numeric cells is NaN when either is.\<close>

definition mul_na :: "rat option \<Rightarrow> rat option \<Rightarrow> rat option" where
  "mul_na a b = (case (a, b) of (Some x, Some y) \<Rightarrow> Some (x * y) | _ \<Rightarrow> None)"

text \<open>
  \<^verbatim>\<open>df["monto_total"] = df["cantidad"] * df["precio_unitario"]\<close>, on a copy. The
  product of two cells is the first argument: \<open>mul_na\<close> for exact numbers, \<open>fmul\<close>
  for float64.
\<close>

definition crear_monto_total ::
  "('n option \<Rightarrow> 'n option \<Rightarrow> 'n option) \<Rightarrow> 'n venta frame \<Rightarrow> 'n venta_mt frame" where
  "crear_monto_total mul df =
     map (\<lambda>(i, r). (i, \<lparr>fecha = fecha r, producto = producto r, vendedor = vendedor r,
                         sucursal = sucursal r, cantidad = cantidad r,
                         precio_unitario = precio_unitario r,
                         monto_total = mul (cantidad r) (precio_unitario r)\<rparr>)) df"

subsection \<open>Group aggregates\<close>

text \<open>
  The group aggregate "sum" skips NaN and is 0 on a group without a number; "count" is
  the number of values that are not missing. \<open>nansum\<close> is the sum of exact numbers,
  \<open>nansum_f64\<close> the sum of float64 values, added one after the other in the order of
  the rows.
\<close>

definition nansum :: "rat option list \<Rightarrow> rat" where
  "nansum vs = sum_list (map (\<lambda>v. case v of None \<Rightarrow> 0 | Some x \<Rightarrow> x) vs)"

definition nansum_f64 :: "f64 option list \<Rightarrow> f64 option" where
  "nansum_f64 vs = foldl fadd (Some (Fin 0)) (filter (\<lambda>v. v \<noteq> None) vs)"

definition count_notna :: "'a option list \<Rightarrow> nat" where
  "count_notna vs = length (filter (\<lambda>v. v \<noteq> None) vs)"

text \<open>
  \<^verbatim>\<open>df.groupby(col)[val].sum()\<close>: one entry per value of the column that occurs,
  in ascending order of that value; rows where the column is missing belong to no group.
\<close>

definition groupby_sum ::
  "('r \<Rightarrow> string option) \<Rightarrow> ('r \<Rightarrow> rat option) \<Rightarrow> 'r frame \<Rightarrow> (string \<times> rat) list" where
  "groupby_sum col val df =
     map (\<lambda>k. (k, nansum (map val (filter (\<lambda>r. col r = Some k) (filas df)))))
         (sort (remdups (concat (map (\<lambda>r. case col r of None \<Rightarrow> [] | Some k \<Rightarrow> [k])
                                     (filas df)))))"

text \<open>
  \<^verbatim>\<open>sort_values(ascending)\<close> on the sums. For a descending sort pandas reverses
  the values, sorts ascending and reverses the result. The order it gives to equal sums
  depends on the sorting algorithm of the library; here the sort is the stable insertion
  sort, and no theorem below depends on the order of equal sums.
\<close>

definition sort_values :: "bool \<Rightarrow> ('k \<times> rat) list \<Rightarrow> ('k \<times> rat) list" where
  "sort_values ascending s =
     (if ascending then sort_key snd s else rev (sort_key snd (rev s)))"

text \<open>
  \<^verbatim>\<open>head(n)\<close>: the first n rows; for a negative n, all rows but the last -n.
\<close>

definition head :: "int \<Rightarrow> 'a list \<Rightarrow> 'a list" where
  "head n xs = (if 0 \<le> n then take (nat n) xs else take (length xs - nat (- n)) xs)"

subsection \<open>top_productos and top_vendedores\<close>

text \<open>
  \<^verbatim>\<open>
  def top_productos(df, n=5):
      g = (df.groupby("producto")["monto_total"].sum()
             .sort_values(ascending=False).head(n).reset_index())
      return g

  def top_vendedores(df, n=5):
      df2 = df.copy()
      df2["vendedor"] = df2["vendedor"].fillna("Sin Vendedor")
      g = (df2.groupby("vendedor")["monto_total"].sum().sort_values().head(n).reset_index())
      return g
  \<close>
\<close>

definition top_productos :: "rat venta_mt frame \<Rightarrow> int \<Rightarrow> (string \<times> rat) list" where
  "top_productos df n = head n (sort_values False (groupby_sum producto monto_total df))"

definition fillna :: "'a option \<Rightarrow> 'a \<Rightarrow> 'a option" where
  "fillna v d = (case v of None \<Rightarrow> Some d | Some x \<Rightarrow> Some x)"

definition top_vendedores :: "rat venta_mt frame \<Rightarrow> int \<Rightarrow> (string \<times> rat) list" where
  "top_vendedores df n =
     (let df2 = map (\<lambda>(i, r). (i, r\<lparr>vendedor := fillna (vendedor r) ''Sin Vendedor''\<rparr>)) df
      in head n (sort_values True (groupby_sum vendedor monto_total df2)))"

subsection \<open>resumen_diario_por_sucursal\<close>

text \<open>
  The quotient of a float64 column by an integer column (the count, which is exact as a
  float64) follows IEEE 754: a division by zero does not raise, it gives an infinity, or
  NaN for 0/0; an infinity divided by a count is that infinity.
\<close>

definition truediv :: "f64 option \<Rightarrow> nat \<Rightarrow> f64 option" where
  "truediv x n =
     (case x of
        None \<Rightarrow> None
      | Some PInf \<Rightarrow> Some PInf
      | Some NInf \<Rightarrow> Some NInf
      | Some (Fin a) \<Rightarrow>
          (if n = 0 then (if a = 0 then None else signo_inf (0 < a))
           else Some (redondear (a / of_nat n))))"

text \<open>\<^verbatim>\<open>.replace([np.inf, -np.inf], np.nan)\<close>\<close>

definition replace_inf :: "f64 option \<Rightarrow> f64 option" where
  "replace_inf v = (if v = Some PInf \<or> v = Some NInf then None else v)"

record resumen_fila =
  rs_fecha :: "date option"
  rs_sucursal :: "string option"
  ventas_totales :: "f64 option"
  unidades :: "f64 option"
  tickets :: nat
  ticket_promedio :: "f64 option"

text \<open>
  With \<^verbatim>\<open>dropna=False\<close> a missing key value is a group of its own, sorted after
  the values that are present.
\<close>

definition na_ultimo :: "'a \<Rightarrow> 'a option \<Rightarrow> bool \<times> 'a" where
  "na_ultimo d v = (case v of None \<Rightarrow> (True, d) | Some x \<Rightarrow> (False, x))"

text \<open>
  \<^verbatim>\<open>
  base = df.copy()
  base["fecha"] = pd.to_datetime(base["fecha"]).dt.date
  g = base.groupby(["fecha", "sucursal"], dropna=False).agg(
      ventas_totales=("monto_total", "sum"),
      unidades=("cantidad", "sum"),
      tickets=("producto", "count")
  ).reset_index()
  g["ticket_promedio"] = (g["ventas_totales"] / g["tickets"]).replace([np.inf, -np.inf], np.nan)
  return g
  \<close>
\<close>

definition clave_resumen :: "'n venta_mt \<Rightarrow> date option \<times> string option" where
  "clave_resumen r = (map_option dt_date (fecha r), sucursal r)"

definition grupo_resumen :: "'n venta_mt frame \<Rightarrow> date option \<times> string option \<Rightarrow> 'n venta_mt list" where
  "grupo_resumen df k = filter (\<lambda>r. clave_resumen r = k) (filas df)"

definition resumen_diario_por_sucursal :: "f64 venta_mt frame \<Rightarrow> resumen_fila list" where
  "resumen_diario_por_sucursal df =
     (let claves = sort_key (\<lambda>(d, s). (na_ultimo 0 d, na_ultimo [] s))
                            (remdups (map clave_resumen (filas df)))
      in map (\<lambda>(d, s).
                let grupo = grupo_resumen df (d, s);
                    vt = nansum_f64 (map monto_total grupo);
                    tk = count_notna (map producto grupo)
                in \<lparr>rs_fecha = d, rs_sucursal = s, ventas_totales = vt,
                    unidades = nansum_f64 (map cantidad grupo), tickets = tk,
                    ticket_promedio = replace_inf (truediv vt tk)\<rparr>)
             claves)"

section \<open>Notions of the specification\<close>

text \<open>
  The specification speaks of the revenue of a product and of a seller, where a sale
  without a seller counts for the label "Sin Vendedor". These two definitions follow its
  words; the rankings of the source are compared with them.
\<close>

definition ventas_por_producto :: "rat venta_mt frame \<Rightarrow> string \<Rightarrow> rat" where
  "ventas_por_producto df p =
     nansum (map monto_total (filter (\<lambda>r. producto r = Some p) (filas df)))"

definition etiqueta_vendedor :: "rat venta_mt \<Rightarrow> string" where
  "etiqueta_vendedor r = (case vendedor r of None \<Rightarrow> ''Sin Vendedor'' | Some v \<Rightarrow> v)"

definition ventas_por_vendedor :: "rat venta_mt frame \<Rightarrow> string \<Rightarrow> rat" where
  "ventas_por_vendedor df v =
     nansum (map monto_total (filter (\<lambda>r. etiqueta_vendedor r = v) (filas df)))"

text \<open>
  The number that a float64 cell stands for in an exact sum: its value when it is finite;
  a missing value counts for nothing, as in the sums of pandas.
\<close>

definition valor :: "f64 option \<Rightarrow> rat" where
  "valor v = (case v of Some (Fin a) \<Rightarrow> a | _ \<Rightarrow> 0)"

text \<open>The keys of the daily summary, in the order of its rows.\<close>

definition claves_resumen :: "'n venta_mt frame \<Rightarrow> (date option \<times> string option) list" where
  "claves_resumen df = sort_key (\<lambda>(d, s). (na_ultimo (0::int) d, na_ultimo ([]::string) s))
                            (remdups (map clave_resumen (filas df)))"

section \<open>Example data\<close>

text \<open>
  Day 19000 after the epoch is 2022-01-08; its midnight is the timestamp
  1641600000000000000, ten o'clock of that day is 1641636000000000000 and the next
  midnight is 1641686400000000000.
\<close>

definition ej_ok :: "rat venta" where
  "ej_ok = \<lparr>fecha = Some 0, producto = Some ''Pan'', vendedor = Some ''Ana'',
            sucursal = Some ''Centro'', cantidad = Some 2, precio_unitario = Some 10\<rparr>"

definition ej_malo :: "rat venta" where
  "ej_malo = \<lparr>fecha = Some 0, producto = Some ''Leche'', vendedor = Some ''Ana'',
              sucursal = Some ''Centro'', cantidad = Some (-1), precio_unitario = Some 5\<rparr>"

definition ej_hoy :: "rat venta" where
  "ej_hoy = \<lparr>fecha = Some 1641600000000000000, producto = Some ''Pan'',
             vendedor = Some ''Ana'', sucursal = Some ''Centro'', cantidad = Some 2,
             precio_unitario = Some 10\<rparr>"

definition ej_tarde :: "rat venta" where
  "ej_tarde = \<lparr>fecha = Some 1641636000000000000, producto = Some ''Pan'',
               vendedor = Some ''Ana'', sucursal = Some ''Centro'', cantidad = Some 2,
               precio_unitario = Some 10\<rparr>"

definition ej_triple :: "rat venta" where
  "ej_triple = \<lparr>fecha = Some 1641686400000000000, producto = Some ''Pan'', vendedor = None,
                sucursal = None, cantidad = Some 0, precio_unitario = None\<rparr>"

definition sin_archivo :: "rat sistema" where
  "sin_archivo = \<lparr>directorio = False, rechazados_csv = None\<rparr>"

definition con_archivo :: "rat linea list \<Rightarrow> rat sistema" where
  "con_archivo ls = \<lparr>directorio = True, rechazados_csv = Some ls\<rparr>"

definition ej_sucio :: "rat venta frame" where
  "ej_sucio = [(0, ej_ok), (1, ej_ok), (2, ej_triple), (3, ej_malo)]"

definition ej_parse_num :: "celda \<Rightarrow> rat option" where
  "ej_parse_num c =
     (case c of
        Numero q \<Rightarrow> Some q
      | Texto s \<Rightarrow> (if s = ''3'' then Some 3 else None)
      | Nulo \<Rightarrow> None)"

definition ej_parse_fecha :: "celda \<Rightarrow> timestamp option" where
  "ej_parse_fecha c =
     (case c of
        Texto s \<Rightarrow> (if s = ''1970-01-02'' then Some 86400000000000 else None)
      | _ \<Rightarrow> None)"


definition mt :: "string option \<Rightarrow> string option \<Rightarrow> rat option \<Rightarrow> rat venta_mt" where
  "mt p v m = \<lparr>fecha = Some 0, producto = p, vendedor = v, sucursal = Some ''Centro'',
               cantidad = Some 1, precio_unitario = m, monto_total = m\<rparr>"

definition ej_mt :: "rat venta_mt frame" where
  "ej_mt = [(0, mt (Some ''Pan'') (Some ''Ana'') (Some 20)),
            (1, mt (Some ''Leche'') None (Some 20)),
            (2, mt (Some ''Queso'') (Some ''Beto'') (Some 5)),
            (3, mt (Some ''Pan'') None (Some 7))]"

definition ej_empate :: "rat venta_mt frame" where
  "ej_empate = [(0, mt (Some ''Pan'') (Some ''Ana'') (Some 20)),
                (1, mt (Some ''Leche'') (Some ''Ana'') (Some 20))]"

text \<open>
  Raw rows of two files, read with the six columns of the extract; the second row repeats
  the first.
\<close>

definition columnas_extracto :: "string list" where
  "columnas_extracto =
     [''fecha'', ''producto'', ''vendedor'', ''sucursal'', ''cantidad'', ''precio_unitario'']"

definition ej_cruda_a :: venta_cruda where
  "ej_cruda_a = \<lparr>fecha_c = Texto ''1970-01-02'', producto_c = Some ''Pan'',
                 vendedor_c = Some ''Ana'', sucursal_c = Some ''Centro'',
                 cantidad_c = Numero 2, precio_unitario_c = Numero 10\<rparr>"

definition ej_cruda_b :: venta_cruda where
  "ej_cruda_b = \<lparr>fecha_c = Texto ''1970-01-02'', producto_c = Some ''Leche'',
                 vendedor_c = Some ''Ana'', sucursal_c = Some ''Centro'',
                 cantidad_c = Numero (- 1), precio_unitario_c = Numero 5\<rparr>"

definition ej_a :: "rat venta" where
  "ej_a = \<lparr>fecha = Some 86400000000000, producto = Some ''Pan'', vendedor = Some ''Ana'',
           sucursal = Some ''Centro'', cantidad = Some 2, precio_unitario = Some 10\<rparr>"

definition ej_b :: "rat venta" where
  "ej_b = \<lparr>fecha = Some 86400000000000, producto = Some ''Leche'', vendedor = Some ''Ana'',
           sucursal = Some ''Centro'', cantidad = Some (- 1), precio_unitario = Some 5\<rparr>"

text \<open>Rows of float64 cells for the daily summary.\<close>

definition mtf :: "string option \<Rightarrow> string option \<Rightarrow> f64 option \<Rightarrow> f64 venta_mt" where
  "mtf p suc m = \<lparr>fecha = Some 0, producto = p, vendedor = Some ''Ana'', sucursal = suc,
                 cantidad = Some (Fin 1), precio_unitario = m, monto_total = m\<rparr>"

definition ej_resumen :: "f64 venta_mt frame" where
  "ej_resumen = [(0, mtf (Some ''Pan'') (Some ''Centro'') (Some (Fin 20))),
                 (1, mtf (Some ''Leche'') (Some ''Centro'') (Some (Fin 10))),
                 (2, mtf None None (Some (Fin 4)))]"

text \<open>
  The float64 values of 0.2, 0.3 and 0.1, sold at the branches A, B and A.
\<close>

definition ej_decimos :: "f64 venta_mt frame" where
  "ej_decimos =
     [(0, mtf (Some ''Pan'') (Some ''A'') (Some (Fin (3602879701896397 / 18014398509481984)))),
      (1, mtf (Some ''Pan'') (Some ''B'') (Some (Fin (5404319552844595 / 18014398509481984)))),
      (2, mtf (Some ''Pan'') (Some ''A'') (Some (Fin (3602879701896397 / 36028797018963968))))]"

text \<open>A sale with an infinite price: a value that \<^verbatim>\<open>pd.to_numeric\<close> gives for "inf".\<close>

definition ej_inf :: "f64 venta" where
  "ej_inf = \<lparr>fecha = Some 0, producto = Some ''Pan'', vendedor = Some ''Ana'',
             sucursal = Some ''Centro'', cantidad = Some (Fin 1), precio_unitario = Some PInf\<rparr>"

lemmas ej_defs = ej_ok_def ej_malo_def ej_tarde_def ej_triple_def ej_hoy_def
  sin_archivo_def con_archivo_def

lemmas mask_defs = mask_rechazo_def mask_futuras_def mask_precio_invalido_def
  mask_cantidad_invalida_def mask_fecha_invalida_def gt_na_def le_na_def isna_def
  to_datetime_date_def ns_per_day_def

lemmas top_defs = top_productos_def top_vendedores_def groupby_sum_def sort_values_def
  head_def filas_def nansum_def fillna_def

section \<open>Type coercion\<close>

lemma convertir_columna_coerce:
  "convertir_columna parse Coerce cs =
     Inr (map (\<lambda>c. case c of Nulo \<Rightarrow> None | _ \<Rightarrow> parse c) cs)"
  by (induction cs) (auto simp: convertir_def split: celda.splits option.splits)

lemma zip_columnas:
  "map g (zip df (zip (map h1 df) (zip (map h2 df) (map h3 df))))
   = map (\<lambda>x. g (x, h1 x, h2 x, h3 x)) df"
  by (induction df) auto

text \<open>
  On a frame that has the three columns the coercion returns: with \<^verbatim>\<open>errors="coerce"\<close>
  the conversion of a column has no raising branch.
\<close>

lemma tipificar_eq:
  assumes "''fecha'' \<in> set cols" "''cantidad'' \<in> set cols" "''precio_unitario'' \<in> set cols"
  shows "tipificar_campos cols pf pn df =
     Inr (map (\<lambda>(i, r).
                 (i, \<lparr>fecha = (case fecha_c r of Nulo \<Rightarrow> None | _ \<Rightarrow> pf (fecha_c r)),
                     producto = producto_c r, vendedor = vendedor_c r,
                     sucursal = sucursal_c r,
                     cantidad = (case cantidad_c r of Nulo \<Rightarrow> None | _ \<Rightarrow> pn (cantidad_c r)),
                     precio_unitario = (case precio_unitario_c r of Nulo \<Rightarrow> None
                                        | _ \<Rightarrow> pn (precio_unitario_c r))\<rparr>)) df)"
  using assms
  by (auto simp: tipificar_campos_def columna_def to_datetime_def to_numeric_def
        convertir_columna_coerce filas_def zip_columnas case_prod_unfold split: celda.splits)

lemma tipificar_con_columnas:
  assumes "''fecha'' \<in> set cols" "''cantidad'' \<in> set cols" "''precio_unitario'' \<in> set cols"
  shows "\<exists>df'. tipificar_campos cols pf pn df = Inr df'
     \<and> length df' = length df \<and> index df' = index df
     \<and> (\<forall>k < length df.
           (pf (fecha_c (snd (df ! k))) = None \<longrightarrow> fecha (snd (df' ! k)) = None)
         \<and> (pn (cantidad_c (snd (df ! k))) = None \<longrightarrow> cantidad (snd (df' ! k)) = None)
         \<and> (pn (precio_unitario_c (snd (df ! k))) = None
              \<longrightarrow> precio_unitario (snd (df' ! k)) = None)
         \<and> (fecha_c (snd (df ! k)) \<noteq> Nulo
              \<longrightarrow> fecha (snd (df' ! k)) = pf (fecha_c (snd (df ! k))))
         \<and> (cantidad_c (snd (df ! k)) \<noteq> Nulo
              \<longrightarrow> cantidad (snd (df' ! k)) = pn (cantidad_c (snd (df ! k))))
         \<and> (precio_unitario_c (snd (df ! k)) \<noteq> Nulo
              \<longrightarrow> precio_unitario (snd (df' ! k)) = pn (precio_unitario_c (snd (df ! k))))
         \<and> producto (snd (df' ! k)) = producto_c (snd (df ! k))
         \<and> vendedor (snd (df' ! k)) = vendedor_c (snd (df ! k))
         \<and> sucursal (snd (df' ! k)) = sucursal_c (snd (df ! k)))"
  by (auto simp: tipificar_eq[OF assms] index_def case_prod_unfold split: celda.splits)

text \<open>
  On a frame that lacks one of the three columns the coercion raises KeyError, whatever
  its rows are.
\<close>

lemma tipificar_key_error:
  assumes "''fecha'' \<notin> set cols \<or> ''cantidad'' \<notin> set cols \<or> ''precio_unitario'' \<notin> set cols"
  shows "tipificar_campos cols pf pn df = Inl KeyError"
  using assms
  by (auto simp: tipificar_campos_def columna_def to_datetime_def to_numeric_def
        convertir_columna_coerce)

lemma tipificar_index:
  assumes "tipificar_campos cols pf pn df = Inr df'"
  shows "index df' = index df"
proof (cases "''fecha'' \<in> set cols \<and> ''cantidad'' \<in> set cols \<and> ''precio_unitario'' \<in> set cols")
  case True
  then show ?thesis
    using assms by (auto simp: tipificar_eq index_def case_prod_unfold)
next
  case False
  then have "tipificar_campos cols pf pn df = Inl KeyError"
    by (intro tipificar_key_error) blast
  with assms show ?thesis by simp
qed


section \<open>The deduplicator is idempotent\<close>

lemma drop_duplicates_desde_subset:
  "set (drop_duplicates_desde vistos df) \<subseteq> set df"
  by (induction vistos df rule: drop_duplicates_desde.induct) auto

lemma drop_duplicates_desde_nuevos:
  "set (filas (drop_duplicates_desde vistos df)) \<inter> set vistos = {}"
  by (induction vistos df rule: drop_duplicates_desde.induct) (auto simp: filas_def)

lemma drop_duplicates_desde_distinct:
  "distinct (filas (drop_duplicates_desde vistos df))"
proof (induction vistos df rule: drop_duplicates_desde.induct)
  case (1 vistos)
  then show ?case by (simp add: filas_def)
next
  case (2 vistos i r df)
  show ?case
  proof (cases "r \<in> set vistos")
    case True
    with 2 show ?thesis by simp
  next
    case False
    have "r \<notin> set (filas (drop_duplicates_desde (r # vistos) df))"
      using drop_duplicates_desde_nuevos[of "r # vistos" df] by auto
    with False 2 show ?thesis by (simp add: filas_def)
  qed
qed

lemma drop_duplicates_desde_id:
  "distinct (filas df) \<Longrightarrow> set (filas df) \<inter> set vistos = {}
   \<Longrightarrow> drop_duplicates_desde vistos df = df"
  by (induction vistos df rule: drop_duplicates_desde.induct) (auto simp: filas_def)

lemma distinct_filas_filter: "distinct (filas df) \<Longrightarrow> distinct (filas (filter P df))"
  by (simp add: filas_def distinct_map_filter)

text \<open>
  Claim C7. \<^verbatim>\<open>limpiar_duplicados_y_nulos\<close> is idempotent: applied to its own result
  it returns that result. After one application no two rows have the same values in all
  columns, and no row has a missing \<^verbatim>\<open>fecha\<close>, \<^verbatim>\<open>producto\<close>,
  \<^verbatim>\<open>cantidad\<close> or \<^verbatim>\<open>precio_unitario\<close>.
\<close>

theorem limpiar_idempotente:
  "limpiar_duplicados_y_nulos (limpiar_duplicados_y_nulos df) = limpiar_duplicados_y_nulos df
   \<and> distinct (filas (limpiar_duplicados_y_nulos df))
   \<and> (\<forall>(i, r) \<in> set (limpiar_duplicados_y_nulos df).
         fecha r \<noteq> None \<and> producto r \<noteq> None \<and> cantidad r \<noteq> None
         \<and> precio_unitario r \<noteq> None)"
proof -
  let ?l = "limpiar_duplicados_y_nulos df"
  have d: "distinct (filas ?l)"
    unfolding limpiar_duplicados_y_nulos_def dropna_criticos_def drop_duplicates_def
    by (rule distinct_filas_filter[OF drop_duplicates_desde_distinct])
  then have "drop_duplicates ?l = ?l"
    by (simp add: drop_duplicates_def drop_duplicates_desde_id)
  moreover have "dropna_criticos ?l = ?l"
    by (simp add: limpiar_duplicados_y_nulos_def dropna_criticos_def)
  ultimately have "limpiar_duplicados_y_nulos ?l = ?l"
    by (simp add: limpiar_duplicados_y_nulos_def[of ?l])
  moreover have "\<forall>(i, r) \<in> set ?l.
         fecha r \<noteq> None \<and> producto r \<noteq> None \<and> cantidad r \<noteq> None
         \<and> precio_unitario r \<noteq> None"
    by (auto simp: limpiar_duplicados_y_nulos_def dropna_criticos_def nulo_critico_def isna_def)
  ultimately show ?thesis using d by blast
qed

theorem limpiar_idempotente_witness:
  "(0, ej_ok) \<in> set (limpiar_duplicados_y_nulos ej_sucio) \<and> precio_unitario ej_ok \<noteq> None
   \<and> limpiar_duplicados_y_nulos ej_sucio = [(0, ej_ok), (3, ej_malo)]
   \<and> limpiar_duplicados_y_nulos (limpiar_duplicados_y_nulos ej_sucio)
       = limpiar_duplicados_y_nulos ej_sucio"
proof -
  have e: "limpiar_duplicados_y_nulos ej_sucio = [(0, ej_ok), (3, ej_malo)]"
    by (simp add: limpiar_duplicados_y_nulos_def dropna_criticos_def drop_duplicates_def
          nulo_critico_def isna_def ej_sucio_def ej_defs)
  then have m: "(0, ej_ok) \<in> set (limpiar_duplicados_y_nulos ej_sucio)" by simp
  from limpiar_idempotente[of ej_sucio] m
  have "precio_unitario ej_ok \<noteq> None
        \<and> limpiar_duplicados_y_nulos (limpiar_duplicados_y_nulos ej_sucio)
            = limpiar_duplicados_y_nulos ej_sucio"
    by blast
  with e m show ?thesis by blast
qed

section \<open>Index labels along the pipeline\<close>

text \<open>
  The dataset that \<^verbatim>\<open>main\<close> passes to the rule validator comes from
  \<^verbatim>\<open>leer_archivos_csv\<close> through the coercion and the deduplicator. Its labels are
  pairwise different: ingestion numbers the rows, and the later stages keep or drop rows
  with their labels. (The selection of the columns and \<^verbatim>\<open>normalizar_texto\<close>,
  between ingestion and coercion, keep every row with its label; they are not part of
  this model.)
\<close>

lemma index_concat_ignore_index:
  "index (concat_ignore_index dfs) = [0..<length (concat dfs)]"
  by (simp add: concat_ignore_index_def index_def Let_def)

lemma distinct_index_filter: "distinct (index df) \<Longrightarrow> distinct (index (filter P df))"
  by (simp add: index_def distinct_map_filter)

lemma distinct_index_drop_duplicates_desde:
  "distinct (index df) \<Longrightarrow> distinct (index (drop_duplicates_desde vistos df))"
proof (induction vistos df rule: drop_duplicates_desde.induct)
  case (1 vistos)
  then show ?case by (simp add: index_def)
next
  case (2 vistos i r df)
  have "i \<notin> fst ` set df \<Longrightarrow> i \<notin> fst ` set (drop_duplicates_desde (r # vistos) df)"
    using drop_duplicates_desde_subset[of "r # vistos" df] by auto
  with 2 show ?case by (auto simp: index_def)
qed

lemma distinct_index_limpiar:
  "distinct (index df) \<Longrightarrow> distinct (index (limpiar_duplicados_y_nulos df))"
  by (simp add: limpiar_duplicados_y_nulos_def dropna_criticos_def drop_duplicates_def
        distinct_index_filter distinct_index_drop_duplicates_desde)

lemma etiquetas_distintas_en_flujo:
  assumes "tipificar_campos cols pf pn (concat_ignore_index dfs) = Inr df"
  shows "distinct (index (limpiar_duplicados_y_nulos df))"
proof -
  have "index df = index (concat_ignore_index dfs)"
    using assms by (rule tipificar_index)
  then have "distinct (index df)" by (simp add: index_concat_ignore_index)
  then show ?thesis by (rule distinct_index_limpiar)
qed

section \<open>The rule validator: partition, classification, sink\<close>

lemma index_filter_subset: "set (index (filter P df)) \<subseteq> set (index df)"
  by (auto simp: index_def)

lemma drop_rows_rechazados:
  "drop_rows (index (rechazados today df)) df =
     Inr (filter (\<lambda>(i, r). i \<notin> set (index (rechazados today df))) df)"
  by (simp add: drop_rows_def rechazados_def index_filter_subset)

text \<open>
  Dropping by label is dropping the selected rows, when the labels are pairwise different.
\<close>

lemma filter_etiquetas_distinct:
  "distinct (index df) \<Longrightarrow>
   filter (\<lambda>(i, r). i \<notin> set (index (filter P df))) df = filter (\<lambda>x. \<not> P x) df"
proof (rule filter_cong[OF refl])
  fix x assume d: "distinct (index df)" and x: "x \<in> set df"
  obtain i r where xr: "x = (i, r)" by (cases x)
  have "i \<in> set (index (filter P df)) \<longleftrightarrow> P (i, r)"
  proof
    assume "i \<in> set (index (filter P df))"
    then obtain r' where r': "(i, r') \<in> set df" "P (i, r')"
      by (auto simp: index_def)
    from d have "inj_on fst (set df)" by (simp add: index_def distinct_map)
    with r'(1) x xr have "r' = r"
      using inj_onD[of fst "set df" "(i, r')" "(i, r)"] by simp
    with r'(2) show "P (i, r)" by simp
  next
    assume "P (i, r)"
    with x xr show "i \<in> set (index (filter P df))" by (force simp: index_def)
  qed
  then show "(case x of (i, r) \<Rightarrow> i \<notin> set (index (filter P df))) = (\<not> P x)"
    by (simp add: xr)
qed

text \<open>
  The validator never raises: the labels it drops are labels of the dataset. The file
  system is left as it is when no row is rejected; otherwise the directory exists
  afterwards and the rejected rows are written after the lines the sink had, or after a
  new header when it did not exist.
\<close>

lemma validar_eq:
  "validar_reglas_negocio today df s =
     Inr (filter (\<lambda>(i, r). i \<notin> set (index (rechazados today df))) df,
          if rechazados today df = [] then s
          else s\<lparr>directorio := True,
                 rechazados_csv :=
                   Some ((case rechazados_csv s of None \<Rightarrow> [Encabezado] | Some viejo \<Rightarrow> viejo)
                         @ map Fila (filas (rechazados today df)))\<rparr>)"
  by (cases "rechazados_csv s")
     (simp_all add: validar_reglas_negocio_def Let_def drop_rows_rechazados to_csv_def
        makedirs_def path_exists_def)

lemma validar_eq_distinct:
  assumes "distinct (index df)"
  shows "validar_reglas_negocio today df s =
     Inr (filter (\<lambda>x. x \<notin> set (rechazados today df)) df,
          if rechazados today df = [] then s
          else s\<lparr>directorio := True,
                 rechazados_csv :=
                   Some ((case rechazados_csv s of None \<Rightarrow> [Encabezado] | Some viejo \<Rightarrow> viejo)
                         @ map Fila (filas (rechazados today df)))\<rparr>)"
proof -
  have "filter (\<lambda>(i, r). i \<notin> set (index (rechazados today df))) df
        = filter (\<lambda>x. \<not> (case x of (i, r) \<Rightarrow> mask_rechazo today r)) df"
    unfolding rechazados_def by (rule filter_etiquetas_distinct[OF assms])
  also have "\<dots> = filter (\<lambda>x. x \<notin> set (rechazados today df)) df"
    by (rule filter_cong) (auto simp: rechazados_def)
  finally show ?thesis by (simp add: validar_eq)
qed

lemma filter_no_en_filter:
  "filter (\<lambda>x. x \<notin> set (filter P df)) df = filter (\<lambda>x. \<not> P x) df"
  by (rule filter_cong) auto

lemma mset_filter_compl:
  "mset (filter (\<lambda>x. \<not> P x) df) + mset (filter P df) = mset df"
  by (induction df) auto

lemma mset_particion:
  "mset (filter (\<lambda>x. x \<notin> set (filter P df)) df) + mset (filter P df) = mset df"
  by (simp only: filter_no_en_filter mset_filter_compl)

lemma length_particion:
  "length (filter (\<lambda>x. x \<notin> set (filter P df)) df) + length (filter P df) = length df"
  by (simp only: filter_no_en_filter add.commute[of "length (filter (\<lambda>x. \<not> P x) df)"]
        sum_length_filter_compl)

text \<open>
  On a dataset whose labels are pairwise different the valid rows and the rejected rows
  are a partition of the input.
\<close>

lemma validar_particion_etiquetas:
  assumes "distinct (index df)"
  shows "\<exists>valido s'. validar_reglas_negocio today df s = Inr (valido, s')
           \<and> mset valido + mset (rechazados today df) = mset df
           \<and> set valido \<inter> set (rechazados today df) = {}
           \<and> set valido \<union> set (rechazados today df) = set df
           \<and> length valido + length (rechazados today df) = length df
           \<and> s' = (if rechazados today df = [] then s
                    else s\<lparr>directorio := True,
                           rechazados_csv :=
                             Some ((case rechazados_csv s of None \<Rightarrow> [Encabezado]
                                    | Some viejo \<Rightarrow> viejo)
                                   @ map Fila (filas (rechazados today df)))\<rparr>)"
proof -
  let ?v = "filter (\<lambda>x. x \<notin> set (rechazados today df)) df"
  have m: "mset ?v + mset (rechazados today df) = mset df"
    unfolding rechazados_def by (rule mset_particion)
  have l: "length ?v + length (rechazados today df) = length df"
    unfolding rechazados_def by (rule length_particion)
  have d: "set ?v \<inter> set (rechazados today df) = {}" by auto
  have u: "set ?v \<union> set (rechazados today df) = set df"
    by (auto simp: rechazados_def)
  show ?thesis
    using validar_eq_distinct[OF assms, of today s] m l d u by simp
qed

text \<open>
  Claim C1. For every dataset given to the rule validator, that is the deduplicator's
  output on the coerced rows of the ingested files, whatever the files, the columns kept,
  the parsers, the run date and the state of the sink are:
  \<^verbatim>\<open>validar_reglas_negocio\<close> returns, and the valid rows it returns and the rejected
  rows it writes to the sink are a disjoint partition of the input. Every input row is in
  exactly one of the two, and the two row counts add up to the row count of the input.
\<close>

theorem validar_particion:
  assumes "tipificar_campos cols pf pn (concat_ignore_index dfs) = Inr df0"
    and "df = limpiar_duplicados_y_nulos df0"
  shows "\<exists>valido s'. validar_reglas_negocio today df s = Inr (valido, s')
           \<and> mset valido + mset (rechazados today df) = mset df
           \<and> set valido \<inter> set (rechazados today df) = {}
           \<and> set valido \<union> set (rechazados today df) = set df
           \<and> length valido + length (rechazados today df) = length df
           \<and> s' = (if rechazados today df = [] then s
                    else s\<lparr>directorio := True,
                           rechazados_csv :=
                             Some ((case rechazados_csv s of None \<Rightarrow> [Encabezado]
                                    | Some viejo \<Rightarrow> viejo)
                                   @ map Fila (filas (rechazados today df)))\<rparr>)"
proof -
  have "distinct (index df)"
    unfolding assms(2) using assms(1) by (rule etiquetas_distintas_en_flujo)
  then show ?thesis by (rule validar_particion_etiquetas)
qed

theorem validar_particion_witness:
  "tipificar_campos columnas_extracto ej_parse_fecha ej_parse_num
       (concat_ignore_index [[ej_cruda_a, ej_cruda_a], [ej_cruda_b]])
     = Inr [(0, ej_a), (1, ej_a), (2, ej_b)]
   \<and> limpiar_duplicados_y_nulos [(0, ej_a), (1, ej_a), (2, ej_b)] = [(0, ej_a), (2, ej_b)]
   \<and> rechazados 19000 [(0, ej_a), (2, ej_b)] = [(2, ej_b)]
   \<and> (\<exists>valido. validar_reglas_negocio 19000 [(0, ej_a), (2, ej_b)] sin_archivo
                  = Inr (valido, con_archivo [Encabezado, Fila ej_b])
                \<and> length valido + 1 = 2)"
proof -
  let ?tip = "[(0::nat, ej_a), (1, ej_a), (2, ej_b)]"
  let ?limpio = "[(0::nat, ej_a), (2, ej_b)]"
  have t: "tipificar_campos columnas_extracto ej_parse_fecha ej_parse_num
             (concat_ignore_index [[ej_cruda_a, ej_cruda_a], [ej_cruda_b]]) = Inr ?tip"
    by code_simp
  have l: "?limpio = limpiar_duplicados_y_nulos ?tip"
    by code_simp
  have r: "rechazados 19000 ?limpio = [(2, ej_b)]"
    by code_simp
  have "\<exists>valido s'. validar_reglas_negocio 19000 ?limpio sin_archivo = Inr (valido, s')
           \<and> length valido + length (rechazados 19000 ?limpio) = length ?limpio
           \<and> s' = (if rechazados 19000 ?limpio = [] then sin_archivo
                    else sin_archivo\<lparr>directorio := True,
                           rechazados_csv :=
                             Some ((case rechazados_csv sin_archivo of None \<Rightarrow> [Encabezado]
                                    | Some viejo \<Rightarrow> viejo)
                                   @ map Fila (filas (rechazados 19000 ?limpio)))\<rparr>)"
    using validar_particion[OF t l, of 19000 sin_archivo] by blast
  then have "\<exists>valido. validar_reglas_negocio 19000 ?limpio sin_archivo
                  = Inr (valido, con_archivo [Encabezado, Fila ej_b])
                \<and> length valido + 1 = 2"
    unfolding r by (simp add: filas_def sin_archivo_def con_archivo_def)
  with t l[symmetric] r show ?thesis by (intro conjI)
qed

text \<open>
  The first mask compares timestamps. In calendar terms: a \<^verbatim>\<open>fecha\<close> is later
  than the midnight that starts the run date when its date is after the run date, or is
  the run date and its time of day is after 00:00.
\<close>

lemma despues_de_medianoche:
  fixes a t D :: int
  assumes "0 < D"
  shows "(a * D < t) \<longleftrightarrow> a < t div D \<or> (t div D = a \<and> 0 < t mod D)"
proof -
  let ?q = "t div D" and ?r = "t mod D"
  have eq: "t = D * ?q + ?r" by simp
  have r0: "0 \<le> ?r" and r1: "?r < D" using assms by simp_all
  show ?thesis
  proof
    assume lt: "a * D < t"
    show "a < ?q \<or> (?q = a \<and> 0 < ?r)"
    proof (cases "a < ?q")
      case True
      then show ?thesis by simp
    next
      case False
      have "?q = a"
      proof (rule ccontr)
        assume "?q \<noteq> a"
        with False have "?q + 1 \<le> a" by simp
        then have "D * (?q + 1) \<le> D * a" using assms by (simp only: mult_left_mono)
        then have "D * ?q + D \<le> D * a" by (simp add: algebra_simps)
        with eq r1 have "t < D * a" by linarith
        with lt show False by (simp add: mult.commute)
      qed
      moreover from this eq lt have "0 < ?r" by (simp add: mult.commute)
      ultimately show ?thesis by simp
    qed
  next
    assume "a < ?q \<or> (?q = a \<and> 0 < ?r)"
    then show "a * D < t"
    proof
      assume "a < ?q"
      then have "a + 1 \<le> ?q" by simp
      then have "D * (a + 1) \<le> D * ?q" using assms by (simp only: mult_left_mono)
      then have "D * a + D \<le> D * ?q" by (simp add: algebra_simps)
      with eq r0 assms have "D * a < t" by linarith
      then show ?thesis by (simp add: mult.commute)
    next
      assume h: "?q = a \<and> 0 < ?r"
      then have "D * a < D * ?q + ?r" by simp
      with eq show ?thesis by (simp add: mult.commute)
    qed
  qed
qed

lemma mask_futuras_fecha:
  "fecha r = Some t \<Longrightarrow>
   mask_futuras (to_datetime_date today) r \<longleftrightarrow>
     today < dt_date t \<or> (dt_date t = today \<and> 0 < t mod ns_per_day)"
  using despues_de_medianoche[of ns_per_day today t]
  by (simp add: mask_futuras_def gt_na_def to_datetime_date_def dt_date_def)
     (simp add: ns_per_day_def)


text \<open>
  What the validator rejects, in calendar terms, on a dataset whose labels are pairwise
  different: the rows with a \<^verbatim>\<open>fecha\<close> after the run date or of the run date with
  a time of day after 00:00, with a price or a quantity that is at most 0 or missing, or
  with a missing \<^verbatim>\<open>fecha\<close>.
\<close>

lemma validar_clasificacion_marcas:
  assumes "distinct (index df)"
  shows "\<exists>valido s'. validar_reglas_negocio today df s = Inr (valido, s')
           \<and> (\<forall>i r. (i, r) \<in> set (rechazados today df) \<longleftrightarrow>
                  (i, r) \<in> set df
                  \<and> ((\<exists>t. fecha r = Some t
                           \<and> (today < dt_date t \<or> (dt_date t = today \<and> 0 < t mod ns_per_day)))
                     \<or> (\<exists>p. precio_unitario r = Some p \<and> p \<le> 0) \<or> precio_unitario r = None
                     \<or> (\<exists>c. cantidad r = Some c \<and> c \<le> 0) \<or> cantidad r = None
                     \<or> fecha r = None))
           \<and> valido = filter (\<lambda>x. x \<notin> set (rechazados today df)) df"
proof -
  have f: "mask_futuras (to_datetime_date today) r \<longleftrightarrow>
             (\<exists>t. fecha r = Some t
                \<and> (today < dt_date t \<or> (dt_date t = today \<and> 0 < t mod ns_per_day)))"
    for r :: "'a venta"
  proof (cases "fecha r")
    case None
    then show ?thesis by (simp add: mask_futuras_def gt_na_def)
  next
    case (Some t)
    then show ?thesis using mask_futuras_fecha[OF Some, of today] by simp
  qed
  have "(i, r) \<in> set (rechazados today df) \<longleftrightarrow>
          (i, r) \<in> set df
          \<and> ((\<exists>t. fecha r = Some t
                   \<and> (today < dt_date t \<or> (dt_date t = today \<and> 0 < t mod ns_per_day)))
             \<or> (\<exists>p. precio_unitario r = Some p \<and> p \<le> 0) \<or> precio_unitario r = None
             \<or> (\<exists>c. cantidad r = Some c \<and> c \<le> 0) \<or> cantidad r = None
             \<or> fecha r = None)" for i r
    unfolding rechazados_def mask_rechazo_def f
    by (cases "precio_unitario r"; cases "cantidad r")
       (auto simp: mask_precio_invalido_def mask_cantidad_invalida_def mask_fecha_invalida_def
          le_na_def isna_def)
  then show ?thesis
    using validar_eq_distinct[OF assms, of today s] by simp
qed

text \<open>
  When every \<^verbatim>\<open>fecha\<close> of the dataset is a midnight (a date without a time of day),
  the rejected rows are those that break one of the four rules as the specification words
  them.
\<close>

lemma validar_clasificacion_sin_hora:
  assumes "distinct (index df)"
    and "\<forall>(i, r) \<in> set df. \<forall>t. fecha r = Some t \<longrightarrow> t mod ns_per_day = 0"
  shows "\<exists>valido s'. validar_reglas_negocio today df s = Inr (valido, s')
           \<and> (\<forall>i r. (i, r) \<in> set (rechazados today df) \<longleftrightarrow>
                  (i, r) \<in> set df
                  \<and> ((\<exists>t. fecha r = Some t \<and> today < dt_date t)
                     \<or> (\<exists>p. precio_unitario r = Some p \<and> p \<le> 0) \<or> precio_unitario r = None
                     \<or> (\<exists>c. cantidad r = Some c \<and> c \<le> 0) \<or> cantidad r = None
                     \<or> fecha r = None))
           \<and> valido = filter (\<lambda>x. x \<notin> set (rechazados today df)) df"
proof -
  have f: "mask_futuras (to_datetime_date today) r \<longleftrightarrow>
             (\<exists>t. fecha r = Some t \<and> today < dt_date t)"
    if m: "(i, r) \<in> set df" for i r
  proof (cases "fecha r")
    case None
    then show ?thesis by (simp add: mask_futuras_def gt_na_def)
  next
    case (Some t)
    have "\<forall>t. fecha r = Some t \<longrightarrow> t mod ns_per_day = 0"
      using bspec[OF assms(2) m] by simp
    with Some have "t mod ns_per_day = 0" by simp
    then show ?thesis using mask_futuras_fecha[OF Some, of today] Some by simp
  qed
  have "(i, r) \<in> set (rechazados today df) \<longleftrightarrow>
          (i, r) \<in> set df
          \<and> ((\<exists>t. fecha r = Some t \<and> today < dt_date t)
             \<or> (\<exists>p. precio_unitario r = Some p \<and> p \<le> 0) \<or> precio_unitario r = None
             \<or> (\<exists>c. cantidad r = Some c \<and> c \<le> 0) \<or> cantidad r = None
             \<or> fecha r = None)" for i r
  proof (cases "(i, r) \<in> set df")
    case False
    then show ?thesis by (simp add: rechazados_def)
  next
    case True
    have "mask_rechazo today r \<longleftrightarrow>
            ((\<exists>t. fecha r = Some t \<and> today < dt_date t)
             \<or> (\<exists>p. precio_unitario r = Some p \<and> p \<le> 0) \<or> precio_unitario r = None
             \<or> (\<exists>c. cantidad r = Some c \<and> c \<le> 0) \<or> cantidad r = None
             \<or> fecha r = None)"
      unfolding mask_rechazo_def f[OF True]
      by (cases "precio_unitario r"; cases "cantidad r")
         (auto simp: mask_precio_invalido_def mask_cantidad_invalida_def
            mask_fecha_invalida_def le_na_def isna_def)
    with True show ?thesis by (simp add: rechazados_def)
  qed
  then show ?thesis
    using validar_eq_distinct[OF assms(1), of today s] by simp
qed

text \<open>
  Claim C2. The claim is that a row is rejected exactly when its \<^verbatim>\<open>fecha\<close> is
  strictly after the run date, its \<^verbatim>\<open>precio_unitario\<close> or its
  \<^verbatim>\<open>cantidad\<close> is at most 0 or missing, or its \<^verbatim>\<open>fecha\<close> is missing, so
  that a row of today with all fields valid is accepted. The validator departs from it on
  a sale of the run date that has a time of day: on the run date 2022-01-08 (day 19000)
  the sale of that day at ten o'clock, with the price 10 and the quantity 2, is not
  returned as valid but written to the sink. The mask \<^verbatim>\<open>mask_futuras\<close> compares the
  timestamp of \<^verbatim>\<open>fecha\<close> with the midnight that starts the run date, which the source
  takes with \<^verbatim>\<open>.date()\<close>.
\<close>

theorem validar_rechaza_venta_de_hoy:
  "fecha ej_tarde = Some 1641636000000000000 \<and> dt_date 1641636000000000000 = 19000
   \<and> precio_unitario ej_tarde = Some 10 \<and> cantidad ej_tarde = Some 2
   \<and> mask_futuras (to_datetime_date 19000) ej_tarde
   \<and> validar_reglas_negocio 19000 [(0, ej_tarde)] sin_archivo
       = Inr ([], con_archivo [Encabezado, Fila ej_tarde])"
  by (simp add: validar_eq index_def filas_def rechazados_def mask_defs ej_defs dt_date_def)



text \<open>
  Claim C10. In one run the lines added to the sink are the rows at the positions of the
  input where at least one of the four masks is True, each position once and in the order
  of the input: a row that breaks several rules is written once. So no row is written
  more often than it occurs in the input.
\<close>

theorem validar_anexa_una_vez:
  "\<exists>valido s'. validar_reglas_negocio today df s = Inr (valido, s')
     \<and> rechazados_csv s' =
         (if rechazados today df = [] then rechazados_csv s
          else Some ((case rechazados_csv s of None \<Rightarrow> [Encabezado] | Some viejo \<Rightarrow> viejo)
                     @ map Fila (filas (rechazados today df))))
     \<and> rechazados today df =
         nths df {k. k < length df \<and>
                     (mask_futuras (to_datetime_date today) (snd (df ! k))
                      \<or> mask_precio_invalido (snd (df ! k))
                      \<or> mask_cantidad_invalida (snd (df ! k))
                      \<or> mask_fecha_invalida (snd (df ! k)))}
     \<and> mset (rechazados today df) \<subseteq># mset df"
proof -
  have "rechazados today df =
         nths df {k. k < length df \<and>
                     (mask_futuras (to_datetime_date today) (snd (df ! k))
                      \<or> mask_precio_invalido (snd (df ! k))
                      \<or> mask_cantidad_invalida (snd (df ! k))
                      \<or> mask_fecha_invalida (snd (df ! k)))}"
    by (simp add: rechazados_def filter_eq_nths mask_rechazo_def case_prod_unfold)
  moreover have "mset (rechazados today df) \<subseteq># mset df"
    by (simp add: rechazados_def)
  ultimately show ?thesis by (simp add: validar_eq)
qed

theorem validar_anexa_una_vez_witness:
  "mask_futuras (to_datetime_date 19000) ej_triple \<and> mask_precio_invalido ej_triple
   \<and> mask_cantidad_invalida ej_triple
   \<and> (\<exists>valido s'. validar_reglas_negocio 19000 [(0, ej_triple), (1, ej_hoy)]
                      (con_archivo [Encabezado, Fila ej_malo])
                    = Inr (valido, s')
                  \<and> rechazados_csv s' = Some [Encabezado, Fila ej_malo, Fila ej_triple])"
proof -
  let ?df = "[(0::nat, ej_triple), (1, ej_hoy)]"
  let ?s = "con_archivo [Encabezado, Fila ej_malo]"
  from validar_anexa_una_vez[of 19000 ?df ?s]
  obtain valido s' where
    v: "validar_reglas_negocio 19000 ?df ?s = Inr (valido, s')"
    and e: "rechazados_csv s' =
              (if rechazados 19000 ?df = [] then rechazados_csv ?s
               else Some ((case rechazados_csv ?s of None \<Rightarrow> [Encabezado]
                           | Some viejo \<Rightarrow> viejo)
                          @ map Fila (filas (rechazados 19000 ?df))))"
    by blast
  have "rechazados 19000 ?df = [(0, ej_triple)]"
    by (simp add: rechazados_def mask_defs ej_defs)
  with e have "rechazados_csv s' = Some [Encabezado, Fila ej_malo, Fila ej_triple]"
    by (simp add: filas_def con_archivo_def)
  moreover have "mask_futuras (to_datetime_date 19000) ej_triple
                 \<and> mask_precio_invalido ej_triple \<and> mask_cantidad_invalida ej_triple"
    by (simp add: mask_defs ej_defs)
  ultimately show ?thesis using v by blast
qed

section \<open>The daily summary\<close>

lemma sum_list_indicador_fuera:
  fixes c :: "'b::comm_monoid_add"
  shows "a \<notin> set ks \<Longrightarrow> sum_list (map (\<lambda>k. if a = k then c else 0) ks) = 0"
  by (induction ks) auto

lemma sum_list_indicador:
  fixes c :: "'b::comm_monoid_add"
  shows "distinct ks \<Longrightarrow> a \<in> set ks \<Longrightarrow> sum_list (map (\<lambda>k. if a = k then c else 0) ks) = c"
  by (induction ks) (auto simp: sum_list_indicador_fuera)

lemma sum_list_cero: "sum_list (map (\<lambda>k. 0 :: 'b::comm_monoid_add) ks) = 0"
  by (induction ks) auto

text \<open>
  Summing group by group is summing all rows, when every row's key is one of the keys and
  no key is listed twice.
\<close>

lemma sum_por_grupos:
  fixes f :: "'a \<Rightarrow> 'b::comm_monoid_add"
  shows "distinct ks \<Longrightarrow> key ` set xs \<subseteq> set ks \<Longrightarrow>
   sum_list (map (\<lambda>k. sum_list (map f (filter (\<lambda>x. key x = k) xs))) ks) = sum_list (map f xs)"
proof (induction xs)
  case Nil
  then show ?case by (simp add: sum_list_cero)
next
  case (Cons x xs)
  have "sum_list (map (\<lambda>k. sum_list (map f (filter (\<lambda>y. key y = k) (x # xs)))) ks)
        = sum_list (map (\<lambda>k. (if key x = k then f x else 0)
                               + sum_list (map f (filter (\<lambda>y. key y = k) xs))) ks)"
    by (rule arg_cong[where f = sum_list], rule map_cong) auto
  also have "\<dots> = sum_list (map (\<lambda>k. if key x = k then f x else 0) ks)
                   + sum_list (map (\<lambda>k. sum_list (map f (filter (\<lambda>y. key y = k) xs))) ks)"
    by (simp add: sum_list_addf)
  also have "\<dots> = f x + sum_list (map f xs)"
    using Cons by (simp add: sum_list_indicador)
  finally show ?case by simp
qed

lemma length_por_grupos:
  assumes "distinct ks" "key ` set xs \<subseteq> set ks"
  shows "sum_list (map (\<lambda>k. length (filter (\<lambda>x. key x = k) xs)) ks) = length xs"
  using sum_por_grupos[OF assms, of "\<lambda>x. 1 :: nat"] by (simp add: sum_list_triv)

lemma claves_resumen_set: "set (claves_resumen df) = clave_resumen ` set (filas df)"
  by (simp add: claves_resumen_def)

lemma claves_resumen_distinct: "distinct (claves_resumen df)"
  by (simp add: claves_resumen_def)

lemma resumen_eq:
  "resumen_diario_por_sucursal df =
     map (\<lambda>k. \<lparr>rs_fecha = fst k, rs_sucursal = snd k,
                ventas_totales = nansum_f64 (map monto_total (grupo_resumen df k)),
                unidades = nansum_f64 (map cantidad (grupo_resumen df k)),
                tickets = count_notna (map producto (grupo_resumen df k)),
                ticket_promedio = replace_inf (truediv
                    (nansum_f64 (map monto_total (grupo_resumen df k)))
                    (count_notna (map producto (grupo_resumen df k))))\<rparr>)
         (claves_resumen df)"
  by (simp add: resumen_diario_por_sucursal_def claves_resumen_def Let_def case_prod_unfold)

lemma resumen_claves:
  "map (\<lambda>g. (rs_fecha g, rs_sucursal g)) (resumen_diario_por_sucursal df) = claves_resumen df"
  by (simp add: resumen_eq comp_def)

lemma resumen_ventas:
  "g \<in> set (resumen_diario_por_sucursal df) \<Longrightarrow>
   ventas_totales g = nansum_f64 (map monto_total (grupo_resumen df (rs_fecha g, rs_sucursal g)))"
  by (auto simp: resumen_eq)

lemma resumen_filas:
  "sum_list (map (\<lambda>g. length (grupo_resumen df (rs_fecha g, rs_sucursal g)))
                 (resumen_diario_por_sucursal df)) = length (filas df)"
proof -
  have "map (\<lambda>g. length (grupo_resumen df (rs_fecha g, rs_sucursal g)))
            (resumen_diario_por_sucursal df)
        = map (\<lambda>k. length (grupo_resumen df k))
              (map (\<lambda>g. (rs_fecha g, rs_sucursal g)) (resumen_diario_por_sucursal df))"
    by (simp add: comp_def)
  also have "\<dots> = map (\<lambda>k. length (filter (\<lambda>r. clave_resumen r = k) (filas df)))
                       (claves_resumen df)"
    by (simp only: resumen_claves grupo_resumen_def)
  finally show ?thesis
    by (simp only: length_por_grupos[OF claves_resumen_distinct, of clave_resumen "filas df" df]
          claves_resumen_set subset_refl)
qed

text \<open>The summaries of the example datasets.\<close>

lemma ej_resumen_eval:
  "resumen_diario_por_sucursal ej_resumen =
    [\<lparr>rs_fecha = Some 0, rs_sucursal = Some ''Centro'',
      ventas_totales = Some (Fin 30), unidades = Some (Fin 2), tickets = 2,
      ticket_promedio = Some (Fin 15)\<rparr>,
     \<lparr>rs_fecha = Some 0, rs_sucursal = None, ventas_totales = Some (Fin 4),
      unidades = Some (Fin 1), tickets = 0, ticket_promedio = None\<rparr>]"
  by code_simp

lemma ej_decimos_eval:
  "resumen_diario_por_sucursal ej_decimos =
    [\<lparr>rs_fecha = Some 0, rs_sucursal = Some ''A'',
      ventas_totales = Some (Fin (1351079888211149 / 4503599627370496)),
      unidades = Some (Fin 2), tickets = 2,
      ticket_promedio = Some (Fin (1351079888211149 / 9007199254740992))\<rparr>,
     \<lparr>rs_fecha = Some 0, rs_sucursal = Some ''B'',
      ventas_totales = Some (Fin (5404319552844595 / 18014398509481984)),
      unidades = Some (Fin 1), tickets = 1,
      ticket_promedio = Some (Fin (5404319552844595 / 18014398509481984))\<rparr>]"
  by code_simp

lemma ej_inf_eval:
  "resumen_diario_por_sucursal (crear_monto_total fmul [(0, ej_inf)]) =
    [\<lparr>rs_fecha = Some 0, rs_sucursal = Some ''Centro'',
      ventas_totales = Some PInf, unidades = Some (Fin 1), tickets = 1,
      ticket_promedio = None\<rparr>]"
  by code_simp

text \<open>
  Claim C6, as amended. For every dataset, also with rows whose \<^verbatim>\<open>sucursal\<close> is
  missing, grouping by the date of \<^verbatim>\<open>fecha\<close> and \<^verbatim>\<open>sucursal\<close> loses no row:
  every row has the key of a row of the summary, no key occurs in two rows of the
  summary, and the sizes of the groups add up to the row count of the dataset. The
  \<^verbatim>\<open>ventas_totales\<close> of a row of the summary is the float64 sum of
  \<^verbatim>\<open>monto_total\<close> over its group. When each of these sums is the exact sum of its
  group, the \<^verbatim>\<open>ventas_totales\<close> of the summary add up to the sum of
  \<^verbatim>\<open>monto_total\<close> over the dataset; a sum that is rounded breaks the equality.
\<close>

theorem resumen_conserva_ventas:
  "(\<forall>r \<in> set (filas df). \<exists>g \<in> set (resumen_diario_por_sucursal df).
        rs_fecha g = map_option dt_date (fecha r) \<and> rs_sucursal g = sucursal r)
   \<and> distinct (map (\<lambda>g. (rs_fecha g, rs_sucursal g)) (resumen_diario_por_sucursal df))
   \<and> sum_list (map (\<lambda>g. length (grupo_resumen df (rs_fecha g, rs_sucursal g)))
                    (resumen_diario_por_sucursal df)) = length (filas df)
   \<and> (\<forall>g \<in> set (resumen_diario_por_sucursal df).
        ventas_totales g
          = nansum_f64 (map monto_total (grupo_resumen df (rs_fecha g, rs_sucursal g))))
   \<and> ((\<forall>g \<in> set (resumen_diario_por_sucursal df).
          ventas_totales g
            = Some (Fin (sum_list (map (\<lambda>r. valor (monto_total r))
                                       (grupo_resumen df (rs_fecha g, rs_sucursal g))))))
        \<longrightarrow> sum_list (map (\<lambda>g. valor (ventas_totales g)) (resumen_diario_por_sucursal df))
              = sum_list (map (\<lambda>r. valor (monto_total r)) (filas df)))"
proof (intro conjI)
  show "\<forall>r \<in> set (filas df). \<exists>g \<in> set (resumen_diario_por_sucursal df).
          rs_fecha g = map_option dt_date (fecha r) \<and> rs_sucursal g = sucursal r"
  proof
    fix r assume "r \<in> set (filas df)"
    then have "clave_resumen r \<in> set (claves_resumen df)"
      by (simp add: claves_resumen_set)
    then show "\<exists>g \<in> set (resumen_diario_por_sucursal df).
          rs_fecha g = map_option dt_date (fecha r) \<and> rs_sucursal g = sucursal r"
      by (force simp: resumen_eq clave_resumen_def)
  qed
next
  show "distinct (map (\<lambda>g. (rs_fecha g, rs_sucursal g)) (resumen_diario_por_sucursal df))"
    by (simp only: resumen_claves claves_resumen_distinct)
next
  show "sum_list (map (\<lambda>g. length (grupo_resumen df (rs_fecha g, rs_sucursal g)))
                    (resumen_diario_por_sucursal df)) = length (filas df)"
    by (rule resumen_filas)
next
  show "\<forall>g \<in> set (resumen_diario_por_sucursal df).
        ventas_totales g
          = nansum_f64 (map monto_total (grupo_resumen df (rs_fecha g, rs_sucursal g)))"
    by (simp add: resumen_ventas)
next
  show "(\<forall>g \<in> set (resumen_diario_por_sucursal df).
          ventas_totales g
            = Some (Fin (sum_list (map (\<lambda>r. valor (monto_total r))
                                       (grupo_resumen df (rs_fecha g, rs_sucursal g))))))
        \<longrightarrow> sum_list (map (\<lambda>g. valor (ventas_totales g)) (resumen_diario_por_sucursal df))
              = sum_list (map (\<lambda>r. valor (monto_total r)) (filas df))"
  proof
    assume ex: "\<forall>g \<in> set (resumen_diario_por_sucursal df).
          ventas_totales g
            = Some (Fin (sum_list (map (\<lambda>r. valor (monto_total r))
                                       (grupo_resumen df (rs_fecha g, rs_sucursal g)))))"
    have "map (\<lambda>g. valor (ventas_totales g)) (resumen_diario_por_sucursal df)
          = map (\<lambda>g. sum_list (map (\<lambda>r. valor (monto_total r))
                                    (grupo_resumen df (rs_fecha g, rs_sucursal g))))
                (resumen_diario_por_sucursal df)"
      by (rule map_cong[OF refl]) (simp add: ex valor_def)
    also have "\<dots> = map (\<lambda>k. sum_list (map (\<lambda>r. valor (monto_total r)) (grupo_resumen df k)))
                         (map (\<lambda>g. (rs_fecha g, rs_sucursal g)) (resumen_diario_por_sucursal df))"
      by (simp add: comp_def)
    also have "\<dots> = map (\<lambda>k. sum_list (map (\<lambda>r. valor (monto_total r)) (grupo_resumen df k)))
                         (claves_resumen df)"
      by (simp only: resumen_claves)
    finally have "sum_list (map (\<lambda>g. valor (ventas_totales g)) (resumen_diario_por_sucursal df))
          = sum_list (map (\<lambda>k. sum_list (map (\<lambda>r. valor (monto_total r))
                                    (filter (\<lambda>r. clave_resumen r = k) (filas df))))
                          (claves_resumen df))"
      by (simp add: grupo_resumen_def)
    also have "\<dots> = sum_list (map (\<lambda>r. valor (monto_total r)) (filas df))"
      by (rule sum_por_grupos) (simp_all add: claves_resumen_distinct claves_resumen_set)
    finally show "sum_list (map (\<lambda>g. valor (ventas_totales g)) (resumen_diario_por_sucursal df))
              = sum_list (map (\<lambda>r. valor (monto_total r)) (filas df))" .
  qed
qed

theorem resumen_conserva_ventas_witness:
  "map ventas_totales (resumen_diario_por_sucursal ej_resumen) = [Some (Fin 30), Some (Fin 4)]
   \<and> map rs_sucursal (resumen_diario_por_sucursal ej_resumen) = [Some ''Centro'', None]
   \<and> sum_list (map (\<lambda>g. valor (ventas_totales g)) (resumen_diario_por_sucursal ej_resumen)) = 34
   \<and> sum_list (map (\<lambda>r. valor (monto_total r)) (filas ej_resumen)) = 34"
proof -
  have h: "\<forall>g \<in> set (resumen_diario_por_sucursal ej_resumen).
          ventas_totales g
            = Some (Fin (sum_list (map (\<lambda>r. valor (monto_total r))
                           (grupo_resumen ej_resumen (rs_fecha g, rs_sucursal g)))))"
    unfolding ej_resumen_eval
    by (simp add: grupo_resumen_def clave_resumen_def filas_def ej_resumen_def mtf_def
          valor_def dt_date_def)
  have t: "sum_list (map (\<lambda>r. valor (monto_total r)) (filas ej_resumen)) = 34"
    by (simp add: filas_def ej_resumen_def mtf_def valor_def)
  from resumen_conserva_ventas[of ej_resumen] h
  have "sum_list (map (\<lambda>g. valor (ventas_totales g)) (resumen_diario_por_sucursal ej_resumen))
        = sum_list (map (\<lambda>r. valor (monto_total r)) (filas ej_resumen))"
    by blast
  with t show ?thesis by (simp add: ej_resumen_eval)
qed

text \<open>
  Sales of 0.2 and 0.1 at the branch A and of 0.3 at the branch B, all of one day. The
  sum of A is rounded to 0.30000000000000004, and the two sums of the summary add up to
  more than the three amounts of the dataset: to 0.6000000000000001 in float64, where
  the column of the dataset sums to 0.6.
\<close>

theorem resumen_conserva_ventas_counterexample:
  "map ventas_totales (resumen_diario_por_sucursal ej_decimos)
     = [Some (Fin (1351079888211149 / 4503599627370496)),
        Some (Fin (5404319552844595 / 18014398509481984))]
   \<and> nansum_f64 (map ventas_totales (resumen_diario_por_sucursal ej_decimos))
       = Some (Fin (1351079888211149 / 2251799813685248))
   \<and> nansum_f64 (map monto_total (filas ej_decimos))
       = Some (Fin (5404319552844595 / 9007199254740992))
   \<and> sum_list (map (\<lambda>g. valor (ventas_totales g)) (resumen_diario_por_sucursal ej_decimos))
       \<noteq> sum_list (map (\<lambda>r. valor (monto_total r)) (filas ej_decimos))"
  by code_simp

text \<open>
  Claim C5, as amended. In every row of the daily summary, of any dataset,
  \<^verbatim>\<open>ticket_promedio\<close> is missing when \<^verbatim>\<open>tickets\<close> is 0, and also when
  \<^verbatim>\<open>ventas_totales\<close> is NaN or infinite, whatever \<^verbatim>\<open>tickets\<close> is; when
  \<^verbatim>\<open>tickets\<close> is not 0 and \<^verbatim>\<open>ventas_totales\<close> is finite it is their float64
  quotient. It is never infinite, and the computation has no error to raise: the summary
  is a value for every dataset.
\<close>

theorem resumen_ticket_promedio:
  "\<forall>g \<in> set (resumen_diario_por_sucursal df).
      (tickets g = 0 \<longrightarrow> ticket_promedio g = None)
    \<and> (ventas_totales g = None \<or> ventas_totales g = Some PInf \<or> ventas_totales g = Some NInf
         \<longrightarrow> ticket_promedio g = None)
    \<and> (\<forall>a q. tickets g \<noteq> 0 \<and> ventas_totales g = Some (Fin a)
               \<and> redondear (a / of_nat (tickets g)) = Fin q
             \<longrightarrow> ticket_promedio g = Some (Fin q))
    \<and> ticket_promedio g \<noteq> Some PInf \<and> ticket_promedio g \<noteq> Some NInf"
  by (auto simp: resumen_eq truediv_def replace_inf_def signo_inf_def
           split: option.splits f64.splits)

theorem resumen_ticket_promedio_witness:
  "(\<exists>g \<in> set (resumen_diario_por_sucursal ej_resumen).
       tickets g = 2 \<and> ventas_totales g = Some (Fin 30) \<and> redondear (30 / 2) = Fin 15
       \<and> ticket_promedio g = Some (Fin 15))
   \<and> (\<exists>g \<in> set (resumen_diario_por_sucursal ej_resumen).
       tickets g = 0 \<and> ticket_promedio g = None)"
proof -
  let ?g1 = "\<lparr>rs_fecha = Some 0, rs_sucursal = Some ''Centro'',
      ventas_totales = Some (Fin 30), unidades = Some (Fin 2), tickets = 2,
      ticket_promedio = Some (Fin 15)\<rparr>"
  let ?g2 = "\<lparr>rs_fecha = Some 0, rs_sucursal = None, ventas_totales = Some (Fin 4),
      unidades = Some (Fin 1), tickets = 0, ticket_promedio = None\<rparr>"
  have e: "resumen_diario_por_sucursal ej_resumen = [?g1, ?g2]"
    by (rule ej_resumen_eval)
  have r: "redondear 15 = Fin 15" by code_simp
  have m: "?g1 \<in> set (resumen_diario_por_sucursal ej_resumen)"
           "?g2 \<in> set (resumen_diario_por_sucursal ej_resumen)"
    by (simp_all add: e)
  note t = resumen_ticket_promedio[of ej_resumen, THEN bspec]
  from t[OF m(2)] have c2: "tickets ?g2 = 0 \<longrightarrow> ticket_promedio ?g2 = None"
    by (rule conjunct1)
  from t[OF m(1)]
  have "\<forall>a q. tickets ?g1 \<noteq> 0 \<and> ventas_totales ?g1 = Some (Fin a)
               \<and> redondear (a / of_nat (tickets ?g1)) = Fin q
             \<longrightarrow> ticket_promedio ?g1 = Some (Fin q)"
    by (elim conjE)
  then have c1: "tickets ?g1 \<noteq> 0 \<and> ventas_totales ?g1 = Some (Fin 30)
               \<and> redondear (30 / of_nat (tickets ?g1)) = Fin 15
             \<longrightarrow> ticket_promedio ?g1 = Some (Fin 15)"
    by (elim allE)
  from c1 c2 show ?thesis unfolding e by (simp add: r)
qed

text \<open>
  A sale with the quantity 1 and an infinite price passes the four rules. Its
  \<^verbatim>\<open>monto_total\<close> and the \<^verbatim>\<open>ventas_totales\<close> of its group are infinite,
  \<^verbatim>\<open>tickets\<close> is 1 and the quotient is infinite, but \<^verbatim>\<open>ticket_promedio\<close> is
  missing.
\<close>

theorem resumen_ticket_promedio_counterexample:
  "\<not> mask_rechazo 19000 ej_inf
   \<and> resumen_diario_por_sucursal (crear_monto_total fmul [(0, ej_inf)]) =
       [\<lparr>rs_fecha = Some 0, rs_sucursal = Some ''Centro'',
         ventas_totales = Some PInf, unidades = Some (Fin 1), tickets = 1,
         ticket_promedio = None\<rparr>]
   \<and> truediv (Some PInf) 1 = Some PInf"
  by code_simp

section \<open>The rankings\<close>

subsection \<open>Grouping, sorting and taking the head\<close>

lemma set_claves:
  "set (concat (map (\<lambda>r. case col r of None \<Rightarrow> [] | Some k \<Rightarrow> [k]) xs))
   = {k. \<exists>r \<in> set xs. col r = Some k}"
  by (auto split: option.splits)

lemma groupby_sum_eq:
  "groupby_sum col val df =
     map (\<lambda>k. (k, nansum (map val (filter (\<lambda>r. col r = Some k) (filas df)))))
         (sorted_list_of_set {k. \<exists>r \<in> set (filas df). col r = Some k})"
  by (simp only: groupby_sum_def set_claves[symmetric] sorted_list_of_set_sort_remdups)

lemma finite_claves: "finite {k. \<exists>r \<in> set xs. col r = Some k}"
  by (simp only: set_claves[symmetric] finite_set)

lemma groupby_sum_fst:
  "map fst (groupby_sum col val df)
   = sorted_list_of_set {k. \<exists>r \<in> set (filas df). col r = Some k}"
  by (simp add: groupby_sum_eq comp_def)

lemma groupby_sum_length:
  "length (groupby_sum col val df) = card {k. \<exists>r \<in> set (filas df). col r = Some k}"
  using arg_cong[OF groupby_sum_fst[of col val df], of length] by simp

lemma groupby_sum_distinct: "distinct (map fst (groupby_sum col val df))"
  by (simp only: groupby_sum_fst distinct_sorted_list_of_set)

lemma groupby_sum_set:
  "(k, s) \<in> set (groupby_sum col val df) \<longleftrightarrow>
     (\<exists>r \<in> set (filas df). col r = Some k)
     \<and> s = nansum (map val (filter (\<lambda>r. col r = Some k) (filas df)))"
  using finite_claves[of "filas df" col] by (auto simp: groupby_sum_eq)

lemma sort_values_mset: "mset (sort_values b s) = mset s"
  by (simp add: sort_values_def)

lemma sort_values_set: "set (sort_values b s) = set s"
  using arg_cong[OF sort_values_mset[of b s], of set_mset] by simp

lemma sort_values_length: "length (sort_values b s) = length s"
  using arg_cong[OF sort_values_mset[of b s], of size] by simp

lemma sort_values_distinct:
  "distinct (map fst s) \<Longrightarrow> distinct (map fst (sort_values b s))"
proof -
  have "mset (map fst (sort_values b s)) = mset (map fst s)"
    by (simp only: mset_map sort_values_mset)
  then show "distinct (map fst s) \<Longrightarrow> distinct (map fst (sort_values b s))"
    using mset_eq_imp_distinct_iff by blast
qed

lemma sort_values_asc: "sorted (map snd (sort_values True s))"
  by (simp add: sort_values_def)

lemma sort_values_desc: "sorted_wrt (\<lambda>a b. snd b \<le> snd a) (sort_values False s)"
proof -
  have "sorted (map snd (sort_key snd (rev s)))" by simp
  then have "sorted_wrt (\<lambda>a b. snd a \<le> snd b) (sort_key snd (rev s))"
    by (simp only: sorted_map)
  then show ?thesis
    by (simp add: sort_values_def sorted_wrt_rev)
qed

lemma head_nat: "head (int N) xs = take N xs"
  by (simp add: head_def)

lemma sorted_wrt_take_drop:
  "sorted_wrt R xs \<Longrightarrow> a \<in> set (take N xs) \<Longrightarrow> b \<in> set (drop N xs) \<Longrightarrow> R a b"
  using sorted_wrt_append[of R "take N xs" "drop N xs"] by simp

lemma distinct_map_take: "distinct (map f xs) \<Longrightarrow> distinct (map f (take N xs))"
  by (simp add: take_map[symmetric])

lemma set_take_drop: "set xs = set (take N xs) \<union> set (drop N xs)"
  using arg_cong[OF append_take_drop_id[of N xs], of set] by (simp only: set_append)

subsection \<open>top_productos\<close>

text \<open>
  Claim C4, as amended. For every dataset and every number N of entries,
  \<^verbatim>\<open>top_productos\<close> returns a list of products with their summed
  \<^verbatim>\<open>monto_total\<close>, sorted descending by the sum, where equal sums may follow one
  another (the order is not strict); its length is the smaller of N and the number of
  distinct products of the dataset; no product is listed twice, and a product that is
  left out has a sum no greater than any listed one.
\<close>

theorem top_productos_ranking:
  "sorted_wrt (\<lambda>a b. snd b \<le> snd a) (top_productos df (int N))
   \<and> length (top_productos df (int N))
       = min N (card {p. \<exists>r \<in> set (filas df). producto r = Some p})
   \<and> distinct (map fst (top_productos df (int N)))
   \<and> (\<forall>(p, s) \<in> set (top_productos df (int N)).
         (\<exists>r \<in> set (filas df). producto r = Some p) \<and> s = ventas_por_producto df p)
   \<and> (\<forall>p. (\<exists>r \<in> set (filas df). producto r = Some p)
            \<and> p \<notin> fst ` set (top_productos df (int N))
          \<longrightarrow> (\<forall>(q, s) \<in> set (top_productos df (int N)). ventas_por_producto df p \<le> s))"
proof -
  let ?g = "groupby_sum producto monto_total df"
  let ?s = "sort_values False ?g"
  have top: "top_productos df (int N) = take N ?s"
    by (simp add: top_productos_def head_nat)
  have srt: "sorted_wrt (\<lambda>a b. snd b \<le> snd a) ?s" by (rule sort_values_desc)
  have c1: "sorted_wrt (\<lambda>a b. snd b \<le> snd a) (take N ?s)"
    using srt by (rule sorted_wrt_take)
  have c2: "length (take N ?s) = min N (card {p. \<exists>r \<in> set (filas df). producto r = Some p})"
    by (simp add: sort_values_length groupby_sum_length min.commute)
  have c3: "distinct (map fst (take N ?s))"
    by (intro distinct_map_take sort_values_distinct groupby_sum_distinct)
  have mem: "(p, s) \<in> set ?s \<longleftrightarrow>
       (\<exists>r \<in> set (filas df). producto r = Some p) \<and> s = ventas_por_producto df p" for p s
    by (simp only: sort_values_set groupby_sum_set ventas_por_producto_def)
  have c4: "\<forall>(p, s) \<in> set (take N ?s).
         (\<exists>r \<in> set (filas df). producto r = Some p) \<and> s = ventas_por_producto df p"
    using mem by (auto dest: in_set_takeD)
  have c5: "\<forall>p. (\<exists>r \<in> set (filas df). producto r = Some p) \<and> p \<notin> fst ` set (take N ?s)
          \<longrightarrow> (\<forall>(q, s) \<in> set (take N ?s). ventas_por_producto df p \<le> s)"
  proof (intro allI impI)
    fix p assume h: "(\<exists>r \<in> set (filas df). producto r = Some p) \<and> p \<notin> fst ` set (take N ?s)"
    then have "(p, ventas_por_producto df p) \<in> set ?s" using mem by blast
    moreover have "(p, ventas_por_producto df p) \<notin> set (take N ?s)" using h by force
    ultimately have d: "(p, ventas_por_producto df p) \<in> set (drop N ?s)"
      using set_take_drop[of ?s N] by blast
    show "\<forall>(q, s) \<in> set (take N ?s). ventas_por_producto df p \<le> s"
    proof (clarify)
      fix q s assume "(q, s) \<in> set (take N ?s)"
      from sorted_wrt_take_drop[OF srt this d] show "ventas_por_producto df p \<le> s" by simp
    qed
  qed
  show ?thesis unfolding top using c1 c2 c3 c4 c5 by blast
qed

theorem top_productos_ranking_witness:
  "top_productos ej_mt 2 = [(''Pan'', 27), (''Leche'', 20)]
   \<and> (mt (Some ''Queso'') (Some ''Beto'') (Some 5)) \<in> set (filas ej_mt)
   \<and> ''Queso'' \<notin> fst ` set (top_productos ej_mt 2)
   \<and> ventas_por_producto ej_mt ''Pan'' = 27
   \<and> ventas_por_producto ej_mt ''Queso'' \<le> 20"
proof -
  have e: "top_productos ej_mt 2 = [(''Pan'', 27), (''Leche'', 20)]"
    by (simp add: top_defs ej_mt_def mt_def)
  have a: "(mt (Some ''Queso'') (Some ''Beto'') (Some 5)) \<in> set (filas ej_mt)"
    by (simp add: filas_def ej_mt_def)
  then have a': "\<exists>r \<in> set (filas ej_mt). producto r = Some ''Queso''"
    by (rule bexI[rotated]) (simp add: mt_def)
  have b: "''Queso'' \<notin> fst ` set (top_productos ej_mt 2)"
    by (simp add: e)
  have m: "(''Pan'', 27) \<in> set (top_productos ej_mt 2)"
       "(''Leche'', 20) \<in> set (top_productos ej_mt 2)"
    by (simp_all add: e)
  from top_productos_ranking[of ej_mt 2] a' b m
  have "ventas_por_producto ej_mt ''Pan'' = 27 \<and> ventas_por_producto ej_mt ''Queso'' \<le> 20"
    by fastforce
  with e a b show ?thesis by blast
qed

text \<open>
  Two products with the same summed amount 20: the ranking lists both, and it is not
  strictly descending.
\<close>

theorem top_productos_ranking_counterexample:
  "top_productos ej_empate 5 = [(''Leche'', 20), (''Pan'', 20)]
   \<and> \<not> sorted_wrt (\<lambda>a b. snd b < snd a) (top_productos ej_empate 5)"
  by (simp add: top_defs ej_empate_def mt_def)

subsection \<open>top_vendedores\<close>

lemma vendedor_fillna:
  "vendedor (r\<lparr>vendedor := fillna (vendedor r) ''Sin Vendedor''\<rparr>) = Some (etiqueta_vendedor r)"
  by (simp add: fillna_def etiqueta_vendedor_def split: option.splits)

lemma filas_map: "filas (map (\<lambda>(i, r). (i, g r)) df) = map g (filas df)"
  by (simp add: filas_def case_prod_unfold comp_def)

lemma groupby_sum_fillna_set:
  "(v, s) \<in> set (groupby_sum vendedor monto_total
                   (map (\<lambda>(i, r). (i, r\<lparr>vendedor := fillna (vendedor r) ''Sin Vendedor''\<rparr>)) df))
   \<longleftrightarrow> v \<in> etiqueta_vendedor ` set (filas df) \<and> s = ventas_por_vendedor df v"
proof -
  let ?fill = "\<lambda>r :: rat venta_mt. r\<lparr>vendedor := fillna (vendedor r) ''Sin Vendedor''\<rparr>"
  have a: "(\<exists>r \<in> set (map ?fill (filas df)). vendedor r = Some v)
           \<longleftrightarrow> v \<in> etiqueta_vendedor ` set (filas df)"
    by (auto simp: vendedor_fillna simp del: venta.simps)
  have b: "map monto_total (filter (\<lambda>r. vendedor r = Some v) (map ?fill (filas df)))
           = map monto_total (filter (\<lambda>r. etiqueta_vendedor r = v) (filas df))"
    by (simp add: filter_map comp_def vendedor_fillna del: venta.simps)
  show ?thesis
    by (simp only: groupby_sum_set filas_map a b ventas_por_vendedor_def)
qed

lemma groupby_sum_fillna_length:
  "length (groupby_sum vendedor monto_total
                   (map (\<lambda>(i, r). (i, r\<lparr>vendedor := fillna (vendedor r) ''Sin Vendedor''\<rparr>)) df))
   = card (etiqueta_vendedor ` set (filas df))"
proof -
  let ?fill = "\<lambda>r :: rat venta_mt. r\<lparr>vendedor := fillna (vendedor r) ''Sin Vendedor''\<rparr>"
  have "{k. \<exists>r \<in> set (map ?fill (filas df)). vendedor r = Some k}
        = etiqueta_vendedor ` set (filas df)"
    by (auto simp: vendedor_fillna simp del: venta.simps)
  then show ?thesis by (simp only: groupby_sum_length filas_map)
qed

text \<open>
  Claim C3. For every dataset and every number N of entries, \<^verbatim>\<open>top_vendedores\<close>
  counts a sale without a seller for the label "Sin Vendedor", groups by seller, sums
  \<^verbatim>\<open>monto_total\<close> per seller, sorts ascending by the sum and returns the first N
  entries: the list is sorted ascending, its length is the smaller of N and the number of
  seller labels, no label is listed twice, every entry carries the revenue of its label,
  and a label that is left out has a revenue no smaller than any listed one (the listed
  ones are N sellers of lowest revenue).
\<close>

theorem top_vendedores_ranking:
  "sorted (map snd (top_vendedores df (int N)))
   \<and> length (top_vendedores df (int N)) = min N (card (etiqueta_vendedor ` set (filas df)))
   \<and> distinct (map fst (top_vendedores df (int N)))
   \<and> (\<forall>(v, s) \<in> set (top_vendedores df (int N)).
         v \<in> etiqueta_vendedor ` set (filas df) \<and> s = ventas_por_vendedor df v)
   \<and> (\<forall>v. v \<in> etiqueta_vendedor ` set (filas df)
            \<and> v \<notin> fst ` set (top_vendedores df (int N))
          \<longrightarrow> (\<forall>(w, s) \<in> set (top_vendedores df (int N)). s \<le> ventas_por_vendedor df v))"
proof -
  let ?df2 = "map (\<lambda>(i, r). (i, r\<lparr>vendedor := fillna (vendedor r) ''Sin Vendedor''\<rparr>)) df"
  let ?g = "groupby_sum vendedor monto_total ?df2"
  let ?s = "sort_values True ?g"
  have top: "top_vendedores df (int N) = take N ?s"
    by (simp only: top_vendedores_def Let_def head_nat)
  have "sorted (map snd ?s)" by (rule sort_values_asc)
  then have srt: "sorted_wrt (\<lambda>a b. snd a \<le> snd b) ?s" by (simp only: sorted_map)
  have "sorted_wrt (\<lambda>a b. snd a \<le> snd b) (take N ?s)"
    using srt by (rule sorted_wrt_take)
  then have c1: "sorted (map snd (take N ?s))" by (simp only: sorted_map)
  have c2: "length (take N ?s) = min N (card (etiqueta_vendedor ` set (filas df)))"
    by (simp add: sort_values_length groupby_sum_fillna_length min.commute)
  have c3: "distinct (map fst (take N ?s))"
    by (intro distinct_map_take sort_values_distinct groupby_sum_distinct)
  have mem: "(v, s) \<in> set ?s \<longleftrightarrow>
       v \<in> etiqueta_vendedor ` set (filas df) \<and> s = ventas_por_vendedor df v" for v s
    by (simp only: sort_values_set groupby_sum_fillna_set)
  have c4: "\<forall>(v, s) \<in> set (take N ?s).
         v \<in> etiqueta_vendedor ` set (filas df) \<and> s = ventas_por_vendedor df v"
    using mem by (auto dest: in_set_takeD)
  have c5: "\<forall>v. v \<in> etiqueta_vendedor ` set (filas df) \<and> v \<notin> fst ` set (take N ?s)
          \<longrightarrow> (\<forall>(w, s) \<in> set (take N ?s). s \<le> ventas_por_vendedor df v)"
  proof (intro allI impI)
    fix v assume h: "v \<in> etiqueta_vendedor ` set (filas df) \<and> v \<notin> fst ` set (take N ?s)"
    then have "(v, ventas_por_vendedor df v) \<in> set ?s" using mem by blast
    moreover have "(v, ventas_por_vendedor df v) \<notin> set (take N ?s)" using h by force
    ultimately have d: "(v, ventas_por_vendedor df v) \<in> set (drop N ?s)"
      using set_take_drop[of ?s N] by blast
    show "\<forall>(w, s) \<in> set (take N ?s). s \<le> ventas_por_vendedor df v"
    proof (clarify)
      fix w s assume "(w, s) \<in> set (take N ?s)"
      from sorted_wrt_take_drop[OF srt this d] show "s \<le> ventas_por_vendedor df v" by simp
    qed
  qed
  show ?thesis unfolding top using c1 c2 c3 c4 c5 by blast
qed

theorem top_vendedores_ranking_witness:
  "top_vendedores ej_mt 2 = [(''Beto'', 5), (''Ana'', 20)]
   \<and> ''Sin Vendedor'' \<in> etiqueta_vendedor ` set (filas ej_mt)
   \<and> ''Sin Vendedor'' \<notin> fst ` set (top_vendedores ej_mt 2)
   \<and> ventas_por_vendedor ej_mt ''Ana'' = 20
   \<and> 20 \<le> ventas_por_vendedor ej_mt ''Sin Vendedor''"
proof -
  have e: "top_vendedores ej_mt 2 = [(''Beto'', 5), (''Ana'', 20)]"
    by (simp add: top_defs ej_mt_def mt_def)
  have a: "''Sin Vendedor'' \<in> etiqueta_vendedor ` set (filas ej_mt)"
    by (simp add: filas_def ej_mt_def mt_def etiqueta_vendedor_def)
  have b: "''Sin Vendedor'' \<notin> fst ` set (top_vendedores ej_mt 2)"
    by (simp add: e)
  have m: "(''Ana'', 20) \<in> set (top_vendedores ej_mt 2)"
    by (simp add: e)
  from top_vendedores_ranking[of ej_mt 2] a b m
  have "ventas_por_vendedor ej_mt ''Ana'' = 20 \<and> 20 \<le> ventas_por_vendedor ej_mt ''Sin Vendedor''"
    by fastforce
  with e a b show ?thesis by blast
qed

end
